theory Spec2Isabelle
  imports Complex_Main
begin

section \<open>Go primitive types\<close>

text \<open>
  Go's \<^verbatim>\<open>uint\<close> identifiers are natural numbers and \<^verbatim>\<open>int\<close> values are integers
  of a 64-bit platform. Integer arithmetic of the modelled code: \<^verbatim>\<open>rp.CurrentResponses++\<close>
  runs under the guard \<^verbatim>\<open>CurrentResponses < MaxResponses\<close> and the counter of skipped
  answers is bounded by a slice length, so neither can wrap; the product
  \<^verbatim>\<open>EstimatedDuration * 60\<close> wraps around as \<open>wrap64\<close> says.

  A \<^verbatim>\<open>float64\<close> is a finite real, an infinity or NaN. The model identifies the two
  zeros of IEEE 754: the program divides only by converted integers and by the constant 5.0,
  so the sign of a zero is never observed.
\<close>

definition wrap64 :: "int \<Rightarrow> int" where
  "wrap64 x = (x + 2 ^ 63) mod 2 ^ 64 - 2 ^ 63"

type_synonym error = string

datatype f64 = Fin real | PInf | NInf | NaN

subsection \<open>Rounding to the nearest binary64 value, ties to even\<close>

definition round_half_even :: "real \<Rightarrow> int" where
  "round_half_even y =
     (let f = \<lfloor>y\<rfloor>; d = y - of_int f
      in if d < 1/2 then f else if 1/2 < d then f + 1 else if even f then f else f + 1)"

text \<open>
  The significand \<open>y\<close> is moved into \<open>[2^52, 2^53)\<close> while \<open>y * u\<close> stays fixed;
  \<open>u\<close> is the weight of the last bit. Halving \<open>u\<close> stops after 1074 steps, at the
  spacing \<open>2^-1074\<close> of the subnormal numbers; magnitudes below \<open>2^1024\<close> need at
  most 971 doublings.
\<close>

fun scale_down :: "nat \<Rightarrow> real \<Rightarrow> real \<Rightarrow> real \<times> real" where
  "scale_down 0 y u = (y, u)"
| "scale_down (Suc k) y u = (if 2 ^ 53 \<le> y then scale_down k (y / 2) (u * 2) else (y, u))"

fun scale_up :: "nat \<Rightarrow> real \<Rightarrow> real \<Rightarrow> real \<times> real" where
  "scale_up 0 y u = (y, u)"
| "scale_up (Suc k) y u = (if y < 2 ^ 52 then scale_up k (y * 2) (u / 2) else (y, u))"

definition rne64 :: "real \<Rightarrow> real" where
  "rne64 x =
     (case scale_down 1024 \<bar>x\<bar> 1 of (y, u) \<Rightarrow>
        case scale_up 1074 y u of (z, v) \<Rightarrow> sgn x * of_int (round_half_even z) * v)"

definition round64 :: "real \<Rightarrow> f64" where
  "round64 x =
     (if 2 ^ 1024 - 2 ^ 970 \<le> \<bar>x\<bar> then (if 0 < x then PInf else NInf)
      else Fin (rne64 x))"

subsection \<open>Arithmetic and comparison\<close>

fun f64_neg :: "f64 \<Rightarrow> f64" where
  "f64_neg (Fin a) = Fin (- a)"
| "f64_neg PInf = NInf"
| "f64_neg NInf = PInf"
| "f64_neg NaN = NaN"

fun f64_add :: "f64 \<Rightarrow> f64 \<Rightarrow> f64" where
  "f64_add NaN _ = NaN"
| "f64_add _ NaN = NaN"
| "f64_add (Fin a) (Fin b) = round64 (a + b)"
| "f64_add PInf NInf = NaN"
| "f64_add NInf PInf = NaN"
| "f64_add PInf _ = PInf"
| "f64_add NInf _ = NInf"
| "f64_add (Fin a) PInf = PInf"
| "f64_add (Fin a) NInf = NInf"

definition f64_sub :: "f64 \<Rightarrow> f64 \<Rightarrow> f64" where
  "f64_sub a b = f64_add a (f64_neg b)"

fun f64_sgn :: "f64 \<Rightarrow> real" where
  "f64_sgn (Fin a) = sgn a"
| "f64_sgn PInf = 1"
| "f64_sgn NInf = - 1"
| "f64_sgn NaN = 0"

fun f64_mul :: "f64 \<Rightarrow> f64 \<Rightarrow> f64" where
  "f64_mul NaN _ = NaN"
| "f64_mul _ NaN = NaN"
| "f64_mul (Fin a) (Fin b) = round64 (a * b)"
| "f64_mul a b =
     (if f64_sgn a * f64_sgn b = 0 then NaN
      else if 0 < f64_sgn a * f64_sgn b then PInf else NInf)"

fun f64_div :: "f64 \<Rightarrow> f64 \<Rightarrow> f64" where
  "f64_div NaN _ = NaN"
| "f64_div _ NaN = NaN"
| "f64_div (Fin a) (Fin b) =
     (if b = 0 then (if a = 0 then NaN else if 0 < a then PInf else NInf)
      else round64 (a / b))"
| "f64_div (Fin a) _ = Fin 0"
| "f64_div PInf (Fin b) = (if b < 0 then NInf else PInf)"
| "f64_div NInf (Fin b) = (if b < 0 then PInf else NInf)"
| "f64_div _ _ = NaN"

fun f64_lt :: "f64 \<Rightarrow> f64 \<Rightarrow> bool" where
  "f64_lt NaN _ = False"
| "f64_lt _ NaN = False"
| "f64_lt (Fin a) (Fin b) = (a < b)"
| "f64_lt NInf NInf = False"
| "f64_lt NInf _ = True"
| "f64_lt _ PInf = True"
| "f64_lt _ _ = False"

fun f64_eq :: "f64 \<Rightarrow> f64 \<Rightarrow> bool" where
  "f64_eq NaN _ = False"
| "f64_eq _ NaN = False"
| "f64_eq a b = (a = b)"

definition f64_gt :: "f64 \<Rightarrow> f64 \<Rightarrow> bool" where
  "f64_gt a b = f64_lt b a"

definition f64_le :: "f64 \<Rightarrow> f64 \<Rightarrow> bool" where
  "f64_le a b = (f64_lt a b \<or> f64_eq a b)"

definition f64_ge :: "f64 \<Rightarrow> f64 \<Rightarrow> bool" where
  "f64_ge a b = f64_le b a"

definition f64_of_int :: "int \<Rightarrow> f64" where
  "f64_of_int n = round64 (of_int n)"

section \<open>Reward pool (internal/models/reward.go)\<close>

record RewardPool =
  pool_ID :: nat
  pool_SurveyID :: nat
  pool_TotalAmount :: f64
  pool_RewardPerResponse :: f64
  pool_MaxResponses :: int
  pool_CurrentResponses :: int
  pool_PaidOut :: f64
  pool_RemainingAmount :: f64
  pool_IsActive :: bool
  pool_ContractAddress :: "string option"
  pool_TxHash :: "string option"
  pool_BlockNumber :: "int option"

definition IsAvailable :: "RewardPool \<Rightarrow> bool" where
  "IsAvailable rp \<longleftrightarrow>
     pool_IsActive rp \<and> f64_gt (pool_RemainingAmount rp) (Fin 0)
     \<and> pool_CurrentResponses rp < pool_MaxResponses rp"

definition CanProcessReward :: "RewardPool \<Rightarrow> bool" where
  "CanProcessReward rp \<longleftrightarrow>
     IsAvailable rp \<and> f64_ge (pool_RemainingAmount rp) (pool_RewardPerResponse rp)"

text \<open>
  \<^verbatim>\<open>ProcessReward\<close> mutates its receiver; the model returns the pool after the call
  together with the error, if any.
\<close>

definition ProcessReward :: "RewardPool \<Rightarrow> RewardPool \<times> error option" where
  "ProcessReward rp =
     (if \<not> CanProcessReward rp
      then (rp, Some ''cannot process reward: insufficient funds or pool inactive'')
      else
        let rp1 = rp\<lparr>pool_CurrentResponses := pool_CurrentResponses rp + 1\<rparr>;
            rp2 = rp1\<lparr>pool_PaidOut := f64_add (pool_PaidOut rp1) (pool_RewardPerResponse rp1)\<rparr>;
            rp3 = rp2\<lparr>pool_RemainingAmount :=
                        f64_sub (pool_RemainingAmount rp2) (pool_RewardPerResponse rp2)\<rparr>;
            rp4 = (if pool_MaxResponses rp3 \<le> pool_CurrentResponses rp3
                      \<or> f64_lt (pool_RemainingAmount rp3) (pool_RewardPerResponse rp3)
                   then rp3\<lparr>pool_IsActive := False\<rparr> else rp3)
        in (rp4, None))"

text \<open>
  The pool invariant of the data model, written with the program's own float64 operations:
  \<^verbatim>\<open>remaining_amount == total_amount - paid_out\<close>.
\<close>

definition pool_invariant :: "RewardPool \<Rightarrow> bool" where
  "pool_invariant rp \<longleftrightarrow>
     f64_eq (pool_RemainingAmount rp) (f64_sub (pool_TotalAmount rp) (pool_PaidOut rp))"

text \<open>The float64 values nearest to 0.1, 0.2 and 0.8.\<close>

definition d01 :: real where "d01 = 3602879701896397 / 2 ^ 55"
definition d02 :: real where "d02 = 3602879701896397 / 2 ^ 54"
definition d08 :: real where "d08 = 3602879701896397 / 2 ^ 52"

definition pool_tenths :: RewardPool where
  "pool_tenths = \<lparr>pool_ID = 1, pool_SurveyID = 1, pool_TotalAmount = Fin 1,
     pool_RewardPerResponse = Fin d01, pool_MaxResponses = 10, pool_CurrentResponses = 2,
     pool_PaidOut = Fin d02, pool_RemainingAmount = Fin d08, pool_IsActive = True,
     pool_ContractAddress = None, pool_TxHash = None, pool_BlockNumber = None\<rparr>"

definition pool_hundred :: RewardPool where
  "pool_hundred = \<lparr>pool_ID = 1, pool_SurveyID = 1, pool_TotalAmount = Fin 100,
     pool_RewardPerResponse = Fin 50, pool_MaxResponses = 100, pool_CurrentResponses = 0,
     pool_PaidOut = Fin 0, pool_RemainingAmount = Fin 100, pool_IsActive = True,
     pool_ContractAddress = None, pool_TxHash = None, pool_BlockNumber = None\<rparr>"

section \<open>Surveys and questions (models/survey.go)\<close>

text \<open>
  \<^verbatim>\<open>SurveyStatus\<close>, \<^verbatim>\<open>QuestionType\<close> and \<^verbatim>\<open>ResponseStatus\<close> are string types in
  the source; a \<^verbatim>\<open>time.Time\<close> is an instant on an integer time line, in seconds.
  Records carry the fields that the modelled functions read or write.
\<close>

type_synonym time = int

definition SurveyStatusPublished :: string where "SurveyStatusPublished = ''published''"

definition QuestionTypeText :: string where "QuestionTypeText = ''text''"
definition QuestionTypeTextArea :: string where "QuestionTypeTextArea = ''textarea''"
definition QuestionTypeRating :: string where "QuestionTypeRating = ''rating''"
definition QuestionTypeScale :: string where "QuestionTypeScale = ''scale''"

record Question =
  q_ID :: nat
  q_SurveyID :: nat
  q_Type :: string
  q_Required :: bool
  q_MinLength :: "int option"
  q_MaxLength :: "int option"
  q_MinValue :: "f64 option"
  q_MaxValue :: "f64 option"

record Survey =
  sv_ID :: nat
  sv_CreatorID :: nat
  sv_Title :: string
  sv_Status :: string
  sv_MaxResponses :: int
  sv_RewardPerResponse :: f64
  sv_TotalRewardPool :: f64
  sv_StartDate :: "time option"
  sv_EndDate :: "time option"
  sv_EstimatedDuration :: int
  sv_RequireLogin :: bool
  sv_AllowMultiple :: bool
  sv_ResponseCount :: int
  sv_Questions :: "Question list"

text \<open>The zero value of \<^verbatim>\<open>Survey\<close>, as held by a relation field that was not loaded.\<close>

definition zero_Survey :: Survey where
  "zero_Survey = \<lparr>sv_ID = 0, sv_CreatorID = 0, sv_Title = [], sv_Status = [],
     sv_MaxResponses = 0, sv_RewardPerResponse = Fin 0, sv_TotalRewardPool = Fin 0,
     sv_StartDate = None, sv_EndDate = None, sv_EstimatedDuration = 0, sv_RequireLogin = False,
     sv_AllowMultiple = False, sv_ResponseCount = 0, sv_Questions = []\<rparr>"

text \<open>\<^verbatim>\<open>IsActive\<close> reads the clock; the instant it reads is the first argument.\<close>

definition IsActive :: "time \<Rightarrow> Survey \<Rightarrow> bool" where
  "IsActive now s =
     (if sv_Status s \<noteq> SurveyStatusPublished then False
      else if (case sv_StartDate s of Some d \<Rightarrow> now < d | None \<Rightarrow> False) then False
      else if (case sv_EndDate s of Some d \<Rightarrow> d < now | None \<Rightarrow> False) then False
      else if sv_MaxResponses s \<le> sv_ResponseCount s then False
      else True)"

fun find_question :: "Question list \<Rightarrow> nat \<Rightarrow> error + Question" where
  "find_question [] questionID = Inl ''question not found''"
| "find_question (question # rest) questionID =
     (if q_ID question = questionID then Inr question else find_question rest questionID)"

definition GetQuestionByID :: "Survey \<Rightarrow> nat \<Rightarrow> error + Question" where
  "GetQuestionByID s questionID = find_question (sv_Questions s) questionID"

section \<open>Responses and answers (models/response.go)\<close>

definition ResponseStatusStarted :: string where "ResponseStatusStarted = ''started''"
definition ResponseStatusCompleted :: string where "ResponseStatusCompleted = ''completed''"
definition ResponseStatusAbandoned :: string where "ResponseStatusAbandoned = ''abandoned''"

text \<open>The dynamic \<^verbatim>\<open>interface{}\<close> content of an answer, as decoded from JSON.\<close>

datatype Content = ContentNil | ContentString string | ContentNumber f64 | ContentBool bool
  | ContentOther

text \<open>A date value is a calendar day; only its \<^verbatim>\<open>2006-01-02\<close> rendering is used.\<close>

datatype date = Date (year: nat) (month: nat) (day: nat)

record AnswerValue =
  av_Type :: string
  av_Content :: Content
  av_Options :: "string list"
  av_Rating :: "int option"
  av_Scale :: "int option"
  av_Date :: "date option"

record Answer =
  ans_ID :: nat
  ans_ResponseID :: nat
  ans_QuestionID :: nat
  ans_AnswerText :: string
  ans_AnswerValue :: AnswerValue
  ans_TimeSpent :: int
  ans_IsSkipped :: bool

definition TransactionTypeReward :: string where "TransactionTypeReward = ''reward''"
definition TransactionStatusPending :: string where "TransactionStatusPending = ''pending''"

record RewardTransaction =
  tx_ID :: nat
  tx_UserID :: nat
  tx_SurveyID :: nat
  tx_ResponseID :: "nat option"
  tx_PoolID :: "nat option"
  tx_Type :: string
  tx_Amount :: f64
  tx_Status :: string

record Response =
  resp_ID :: nat
  resp_SurveyID :: nat
  resp_UserID :: nat
  resp_Status :: string
  resp_StartedAt :: time
  resp_CompletedAt :: "time option"
  resp_Duration :: int
  resp_IPAddress :: string
  resp_UserAgent :: string
  resp_Timezone :: string
  resp_Language :: string
  resp_QualityScore :: f64
  resp_IsValid :: bool
  resp_Survey :: Survey
  resp_Answers :: "Answer list"
  resp_Transaction :: "RewardTransaction option"

definition IsCompleted :: "Response \<Rightarrow> bool" where
  "IsCompleted r \<longleftrightarrow> resp_Status r = ResponseStatusCompleted \<and> resp_CompletedAt r \<noteq> None"

definition CalculateDuration :: "time \<Rightarrow> Response \<Rightarrow> int" where
  "CalculateDuration now r =
     (case resp_CompletedAt r of Some c \<Rightarrow> c - resp_StartedAt r
      | None \<Rightarrow> now - resp_StartedAt r)"

definition MarkAsCompleted :: "time \<Rightarrow> Response \<Rightarrow> Response" where
  "MarkAsCompleted now r =
     (let r1 = r\<lparr>resp_Status := ResponseStatusCompleted\<rparr>;
          r2 = r1\<lparr>resp_CompletedAt := Some now\<rparr>
      in r2\<lparr>resp_Duration := CalculateDuration now r2\<rparr>)"

definition MarkAsAbandoned :: "time \<Rightarrow> Response \<Rightarrow> Response" where
  "MarkAsAbandoned now r =
     (let r1 = r\<lparr>resp_Status := ResponseStatusAbandoned\<rparr>
      in r1\<lparr>resp_Duration := CalculateDuration now r1\<rparr>)"

definition ValidateAnswer :: "Answer \<Rightarrow> Question \<Rightarrow> error option" where
  "ValidateAnswer a question =
     (if q_Required question \<and> (ans_IsSkipped a \<or> ans_AnswerText a = [])
      then Some ''answer is required''
      else if q_Type question = QuestionTypeText \<or> q_Type question = QuestionTypeTextArea then
        (if (case q_MinLength question of Some n \<Rightarrow> int (length (ans_AnswerText a)) < n
             | None \<Rightarrow> False)
         then Some ''answer too short''
         else if (case q_MaxLength question of Some n \<Rightarrow> n < int (length (ans_AnswerText a))
                  | None \<Rightarrow> False)
         then Some ''answer too long''
         else None)
      else if q_Type question = QuestionTypeRating \<or> q_Type question = QuestionTypeScale then
        (case av_Rating (ans_AnswerValue a) of
           Some rating \<Rightarrow>
             (if (case q_MinValue question of Some m \<Rightarrow> f64_lt (f64_of_int rating) m
                  | None \<Rightarrow> False)
              then Some ''rating below minimum''
              else if (case q_MaxValue question of Some m \<Rightarrow> f64_gt (f64_of_int rating) m
                       | None \<Rightarrow> False)
              then Some ''rating above maximum''
              else None)
         | None \<Rightarrow> None)
      else None)"

section \<open>Text formatting (fmt, strings)\<close>

definition digit_char :: "nat \<Rightarrow> char" where
  "digit_char n = ''0123456789'' ! n"

function formatUint :: "nat \<Rightarrow> string" where
  "formatUint n = (if n < 10 then [digit_char n] else formatUint (n div 10) @ [digit_char (n mod 10)])"
  by pat_completeness auto
termination
  by (relation "measure (\<lambda>n. n)") auto

declare formatUint.simps [simp del]

text \<open>\<^verbatim>\<open>fmt.Sprintf("%d", n)\<close> on a signed integer.\<close>

definition formatInt :: "int \<Rightarrow> string" where
  "formatInt n = (if n < 0 then ''-'' @ formatUint (nat (- n)) else formatUint (nat n))"

text \<open>\<^verbatim>\<open>fmt.Sprintf("%.2f", x)\<close>: two decimals, the exact value rounded half to even.\<close>

fun format2f :: "f64 \<Rightarrow> string" where
  "format2f NaN = ''NaN''"
| "format2f PInf = ''+Inf''"
| "format2f NInf = ''-Inf''"
| "format2f (Fin x) =
     (let n = nat (round_half_even (\<bar>x\<bar> * 100))
      in (if x < 0 then ''-'' else '''') @ formatUint (n div 100) @ ''.''
         @ [digit_char (n mod 100 div 10), digit_char (n mod 10)])"

definition pad_left :: "nat \<Rightarrow> string \<Rightarrow> string" where
  "pad_left w s = replicate (w - length s) CHR ''0'' @ s"

text \<open>\<^verbatim>\<open>Format("2006-01-02")\<close> of a date.\<close>

definition formatDate :: "date \<Rightarrow> string" where
  "formatDate d = pad_left 4 (formatUint (year d)) @ ''-'' @ pad_left 2 (formatUint (month d))
     @ ''-'' @ pad_left 2 (formatUint (day d))"

fun Join :: "string list \<Rightarrow> string \<Rightarrow> string" where
  "Join [] sep = ''''"
| "Join [x] sep = x"
| "Join (x # y # ys) sep = x @ sep @ Join (y # ys) sep"

text \<open>
  Conversion \<^verbatim>\<open>int(x)\<close> of a float64: truncation toward zero. Where the value is not
  representable in 64 bits Go leaves the result to the implementation; \<open>unrep\<close> supplies it.
\<close>

definition go_int :: "(f64 \<Rightarrow> int) \<Rightarrow> f64 \<Rightarrow> int" where
  "go_int unrep x =
     (case x of
        Fin r \<Rightarrow>
          (let t = (if 0 \<le> r then \<lfloor>r\<rfloor> else \<lceil>r\<rceil>)
           in if - (2 ^ 63) \<le> t \<and> t < 2 ^ 63 then t else unrep x)
      | _ \<Rightarrow> unrep x)"

section \<open>Requests and results (internal/dto/response.go)\<close>

text \<open>
  \<^verbatim>\<open>dto.AnswerValue\<close> has the fields of \<^verbatim>\<open>models.AnswerValue\<close>, and the services copy
  it field by field; one record type stands for both.
\<close>

record StartSurveyRequest =
  ssr_SurveyID :: nat
  ssr_Timezone :: string
  ssr_Language :: string
  ssr_IPAddress :: string
  ssr_UserAgent :: string

record SubmitAnswerRequest =
  sar_QuestionID :: nat
  sar_Answer :: AnswerValue
  sar_TimeSpent :: int
  sar_IsSkipped :: bool

record CompleteSurveyRequest =
  csr_ResponseID :: nat
  csr_Answers :: "SubmitAnswerRequest list"
  csr_Duration :: int

record UpdateAnswerRequest =
  uar_Answer :: AnswerValue
  uar_TimeSpent :: int
  uar_IsSkipped :: bool

record ResponseStartResponse =
  rsr_ResponseID :: nat
  rsr_SurveyID :: nat
  rsr_Status :: string
  rsr_StartedAt :: time
  rsr_TimeLeft :: "int option"

record CompletionResponse =
  cr_ResponseID :: nat
  cr_Status :: string
  cr_CompletedAt :: time
  cr_Duration :: int
  cr_RewardEarned :: f64
  cr_XpEarned :: int
  cr_NFTCertificate :: "string option"
  cr_TransactionHash :: "string option"
  cr_Message :: string

record AnswerResponse =
  ar_ID :: nat
  ar_QuestionID :: nat
  ar_Answer :: AnswerValue
  ar_TimeSpent :: int
  ar_IsSkipped :: bool

record SurveyResponseResponse =
  srr_ID :: nat
  srr_SurveyID :: nat
  srr_UserID :: nat
  srr_Status :: string
  srr_StartedAt :: time
  srr_CompletedAt :: "time option"
  srr_Duration :: int
  srr_QualityScore :: f64
  srr_IsValid :: bool
  srr_Answers :: "AnswerResponse list"
  srr_RewardEarned :: f64
  srr_XpEarned :: int
  srr_NFTCertificate :: "string option"

section \<open>Persistence (internal/repository)\<close>

record User =
  user_ID :: nat
  user_TotalEarned :: f64
  user_TotalResponses :: int

text \<open>The database: one list of rows per table.\<close>

record Database =
  db_surveys :: "Survey list"
  db_responses :: "Response list"
  db_answers :: "Answer list"
  db_pools :: "RewardPool list"
  db_transactions :: "RewardTransaction list"
  db_users :: "User list"

text \<open>\<^verbatim>\<open>surveyRepository.GetByID\<close>: the survey with its questions, or gorm's not-found error.\<close>

definition surveyRepo_GetByID :: "Database \<Rightarrow> nat \<Rightarrow> error + Survey" where
  "surveyRepo_GetByID db ident =
     (case find (\<lambda>s. sv_ID s = ident) (db_surveys db) of
        None \<Rightarrow> Inl ''record not found'' | Some s \<Rightarrow> Inr s)"

text \<open>\<^verbatim>\<open>surveyRepository.UpdateStatistics\<close> is a stub that returns no error.\<close>

definition surveyRepo_UpdateStatistics :: "Database \<Rightarrow> nat \<Rightarrow> Database \<times> error option" where
  "surveyRepo_UpdateStatistics db surveyID = (db, None)"

text \<open>
  \<^verbatim>\<open>userRepository.UpdateBalance\<close> adds \<open>earned\<close> to \<^verbatim>\<open>total_earned\<close> of the user row
  and does not use \<open>xp\<close>.
\<close>

definition userRepo_UpdateBalance :: "Database \<Rightarrow> nat \<Rightarrow> f64 \<Rightarrow> f64 \<Rightarrow> Database" where
  "userRepo_UpdateBalance db userID earned xp =
     db\<lparr>db_users :=
          map (\<lambda>u. if user_ID u = userID
                    then u\<lparr>user_TotalEarned := f64_add (user_TotalEarned u) earned\<rparr> else u)
              (db_users db)\<rparr>"

text \<open>
  Modelled from the spec: the implementations of \<^verbatim>\<open>ResponseRepository\<close> and
  \<^verbatim>\<open>RewardRepository\<close> are missing from the sources; only their interfaces and callers
  are present. The spec describes the persistence layer as simple create, read and update
  operations with no business logic of its own, a loaded response as an aggregate with its
  answers, and answers as keyed by response id and question id, a later submission replacing
  the earlier one.
\<close>

definition responseRepo_GetByID :: "Database \<Rightarrow> nat \<Rightarrow> error + Response" where
  "responseRepo_GetByID db ident =
     (case find (\<lambda>r. resp_ID r = ident) (db_responses db) of
        None \<Rightarrow> Inl ''record not found''
      | Some r \<Rightarrow> Inr (r\<lparr>resp_Answers := filter (\<lambda>a. ans_ResponseID a = ident) (db_answers db)\<rparr>))"

text \<open>
  Modelled from the spec: \<^verbatim>\<open>ResponseRepository.GetWithAnswers\<close> (missing) loads the
  response with its answers; the spec's response aggregate holds no survey, so the
  \<^verbatim>\<open>Survey\<close> relation of the loaded value is as the row has it.
\<close>

definition responseRepo_GetWithAnswers :: "Database \<Rightarrow> nat \<Rightarrow> error + Response" where
  "responseRepo_GetWithAnswers db ident =
     (case find (\<lambda>r. resp_ID r = ident) (db_responses db) of
        None \<Rightarrow> Inl ''record not found''
      | Some r \<Rightarrow> Inr (r\<lparr>resp_Answers := filter (\<lambda>a. ans_ResponseID a = ident) (db_answers db)\<rparr>))"

text \<open>Modelled from the spec: \<^verbatim>\<open>ResponseRepository.Update\<close> (missing) saves the row.\<close>

definition responseRepo_Update :: "Database \<Rightarrow> Response \<Rightarrow> Database" where
  "responseRepo_Update db r =
     db\<lparr>db_responses := map (\<lambda>x. if resp_ID x = resp_ID r then r else x) (db_responses db)\<rparr>"

text \<open>
  Modelled from the spec: \<^verbatim>\<open>ResponseRepository.Create\<close> (missing) inserts the row under a
  fresh identifier and writes the identifier back.
\<close>

definition responseRepo_Create :: "Database \<Rightarrow> Response \<Rightarrow> Database \<times> Response" where
  "responseRepo_Create db r =
     (let r' = r\<lparr>resp_ID := Suc (fold max (map resp_ID (db_responses db)) 0)\<rparr>
      in (db\<lparr>db_responses := db_responses db @ [r']\<rparr>, r'))"

text \<open>
  Modelled from the spec: \<^verbatim>\<open>ResponseRepository.HasUserResponded\<close> (missing) tells whether
  the user has a response to the survey, in any status.
\<close>

definition responseRepo_HasUserResponded :: "Database \<Rightarrow> nat \<Rightarrow> nat \<Rightarrow> bool" where
  "responseRepo_HasUserResponded db userID surveyID =
     list_ex (\<lambda>r. resp_UserID r = userID \<and> resp_SurveyID r = surveyID) (db_responses db)"

text \<open>
  Modelled from the spec: \<^verbatim>\<open>ResponseRepository.UpsertAnswer\<close> (missing) replaces the
  answer of the same response and question, or appends a new one.
\<close>

definition same_key :: "Answer \<Rightarrow> Answer \<Rightarrow> bool" where
  "same_key a b \<longleftrightarrow> ans_ResponseID a = ans_ResponseID b \<and> ans_QuestionID a = ans_QuestionID b"

definition responseRepo_UpsertAnswer :: "Database \<Rightarrow> Answer \<Rightarrow> Database" where
  "responseRepo_UpsertAnswer db a =
     (if list_ex (same_key a) (db_answers db)
      then db\<lparr>db_answers :=
                map (\<lambda>x. if same_key a x then a\<lparr>ans_ID := ans_ID x\<rparr> else x) (db_answers db)\<rparr>
      else db\<lparr>db_answers :=
                db_answers db @ [a\<lparr>ans_ID := Suc (fold max (map ans_ID (db_answers db)) 0)\<rparr>]\<rparr>)"

text \<open>Modelled from the spec: \<^verbatim>\<open>RewardRepository.GetPoolBySurveyID\<close> (missing).\<close>

definition rewardRepo_GetPoolBySurveyID :: "Database \<Rightarrow> nat \<Rightarrow> error + RewardPool" where
  "rewardRepo_GetPoolBySurveyID db surveyID =
     (case find (\<lambda>p. pool_SurveyID p = surveyID) (db_pools db) of
        None \<Rightarrow> Inl ''record not found'' | Some p \<Rightarrow> Inr p)"

text \<open>
  Modelled from the spec: \<^verbatim>\<open>RewardRepository.ProcessReward\<close> (missing) rechecks and debits
  the pool with \<^verbatim>\<open>RewardPool.ProcessReward\<close>, saves the pool and records the transaction,
  as one unit; on an error nothing is written.
\<close>

definition rewardRepo_ProcessReward ::
  "Database \<Rightarrow> RewardPool \<Rightarrow> RewardTransaction \<Rightarrow> Database \<times> error option" where
  "rewardRepo_ProcessReward db pool transaction =
     (case ProcessReward pool of
        (pool', Some err) \<Rightarrow> (db, Some err)
      | (pool', None) \<Rightarrow>
          (db\<lparr>db_pools := map (\<lambda>p. if pool_ID p = pool_ID pool' then pool' else p) (db_pools db),
              db_transactions := db_transactions db
                @ [transaction\<lparr>tx_ID := Suc (fold max (map tx_ID (db_transactions db)) 0)\<rparr>]\<rparr>,
           None))"

section \<open>Response service (internal/services/response_service.go)\<close>

definition extractAnswerText :: "AnswerValue \<Rightarrow> string" where
  "extractAnswerText answerValue =
     (if av_Type answerValue = ''text'' then
        (case av_Content answerValue of ContentString str \<Rightarrow> str | _ \<Rightarrow> '''')
      else if av_Type answerValue = ''number'' then
        (case av_Content answerValue of ContentNumber num \<Rightarrow> format2f num | _ \<Rightarrow> '''')
      else if av_Type answerValue = ''boolean'' then
        (case av_Content answerValue of ContentBool b \<Rightarrow> (if b then ''true'' else ''false'')
         | _ \<Rightarrow> '''')
      else if av_Type answerValue = ''array'' then
        (if 0 < length (av_Options answerValue) then Join (av_Options answerValue) '', ''
         else '''')
      else if av_Type answerValue = ''rating'' then
        (case av_Rating answerValue of Some n \<Rightarrow> formatInt n | None \<Rightarrow> '''')
      else if av_Type answerValue = ''scale'' then
        (case av_Scale answerValue of Some n \<Rightarrow> formatInt n | None \<Rightarrow> '''')
      else if av_Type answerValue = ''date'' then
        (case av_Date answerValue of Some d \<Rightarrow> formatDate d | None \<Rightarrow> '''')
      else '''')"

text \<open>The answer that \<^verbatim>\<open>SubmitAnswers\<close> builds from one element of the batch.\<close>

definition answer_of_request :: "nat \<Rightarrow> SubmitAnswerRequest \<Rightarrow> Answer" where
  "answer_of_request responseID answerReq =
     \<lparr>ans_ID = 0, ans_ResponseID = responseID, ans_QuestionID = sar_QuestionID answerReq,
      ans_AnswerText = extractAnswerText (sar_Answer answerReq),
      ans_AnswerValue = sar_Answer answerReq,
      ans_TimeSpent = sar_TimeSpent answerReq, ans_IsSkipped = sar_IsSkipped answerReq\<rparr>"

text \<open>The loop of \<^verbatim>\<open>SubmitAnswers\<close> over the batch.\<close>

fun submit_loop ::
  "Database \<Rightarrow> Survey \<Rightarrow> nat \<Rightarrow> SubmitAnswerRequest list \<Rightarrow> Database \<times> error option" where
  "submit_loop db survey responseID [] = (db, None)"
| "submit_loop db survey responseID (answerReq # rest) =
     (case GetQuestionByID survey (sar_QuestionID answerReq) of
        Inl err \<Rightarrow> submit_loop db survey responseID rest
      | Inr question \<Rightarrow>
          (case ValidateAnswer (answer_of_request responseID answerReq) question of
             Some err \<Rightarrow> (db, Some err)
           | None \<Rightarrow>
               submit_loop (responseRepo_UpsertAnswer db (answer_of_request responseID answerReq))
                 survey responseID rest))"

definition SubmitAnswers ::
  "Database \<Rightarrow> nat \<Rightarrow> nat \<Rightarrow> SubmitAnswerRequest list \<Rightarrow> Database \<times> error option" where
  "SubmitAnswers db userID responseID answers =
     (case responseRepo_GetByID db responseID of
        Inl err \<Rightarrow> (db, Some err)
      | Inr response \<Rightarrow>
          if resp_UserID response \<noteq> userID then (db, Some ''unauthorized'')
          else if resp_Status response \<noteq> ResponseStatusStarted
          then (db, Some ''response is not active'')
          else
            (case surveyRepo_GetByID db (resp_SurveyID response) of
               Inl err \<Rightarrow> (db, Some err)
             | Inr survey \<Rightarrow> submit_loop db survey responseID answers))"

definition UpdateAnswer ::
  "Database \<Rightarrow> nat \<Rightarrow> nat \<Rightarrow> nat \<Rightarrow> UpdateAnswerRequest \<Rightarrow> Database \<times> error option" where
  "UpdateAnswer db userID responseID questionID req =
     (case responseRepo_GetByID db responseID of
        Inl err \<Rightarrow> (db, Some err)
      | Inr response \<Rightarrow>
          if resp_UserID response \<noteq> userID then (db, Some ''unauthorized'')
          else if resp_Status response \<noteq> ResponseStatusStarted
          then (db, Some ''response is not active'')
          else
            (responseRepo_UpsertAnswer db
               \<lparr>ans_ID = 0, ans_ResponseID = responseID, ans_QuestionID = questionID,
                ans_AnswerText = extractAnswerText (uar_Answer req),
                ans_AnswerValue = uar_Answer req,
                ans_TimeSpent = uar_TimeSpent req, ans_IsSkipped = uar_IsSkipped req\<rparr>,
             None))"

text \<open>The inner loop of the scorer: is there a required question with this id?\<close>

fun required_question :: "Question list \<Rightarrow> nat \<Rightarrow> bool" where
  "required_question [] questionID = False"
| "required_question (question # rest) questionID =
     (if q_ID question = questionID \<and> q_Required question then True
      else required_question rest questionID)"

fun count_skipped_required :: "Answer list \<Rightarrow> Question list \<Rightarrow> int" where
  "count_skipped_required [] questions = 0"
| "count_skipped_required (answer # rest) questions =
     (if ans_IsSkipped answer \<and> required_question questions (ans_QuestionID answer)
      then 1 + count_skipped_required rest questions
      else count_skipped_required rest questions)"

text \<open>
  The average time per question of the scorer:
  \<^verbatim>\<open>float64(response.Duration) / float64(questionsAnswered)\<close>.
\<close>

definition avgTimePerQuestion :: "Response \<Rightarrow> f64" where
  "avgTimePerQuestion response =
     f64_div (f64_of_int (resp_Duration response))
       (f64_of_int (int (length (resp_Answers response))))"

text \<open>The constants 0.7 and 0.1 of the scorer are the float64 values nearest to them.\<close>

definition calculateQualityScore :: "Response \<Rightarrow> Survey \<Rightarrow> f64" where
  "calculateQualityScore response survey =
     (let score0 = Fin 5;
          questionsTotal = int (length (sv_Questions survey));
          questionsAnswered = int (length (resp_Answers response));
          completionRate = f64_div (f64_of_int questionsAnswered) (f64_of_int questionsTotal);
          score1 = f64_mul score0 completionRate;
          score2 = (if f64_lt (avgTimePerQuestion response) (Fin 5)
                    then f64_mul score1 (round64 (7 / 10)) else score1);
          skippedRequired = count_skipped_required (resp_Answers response) (sv_Questions survey);
          score3 = (if 0 < skippedRequired
                    then f64_mul score2
                           (f64_sub (Fin 1) (f64_mul (f64_of_int skippedRequired) (round64 (1 / 10))))
                    else score2);
          score4 = (if f64_lt score3 (Fin 0) then Fin 0 else score3)
      in if f64_gt score4 (Fin 5) then Fin 5 else score4)"

definition processRewards ::
  "(f64 \<Rightarrow> int) \<Rightarrow> Database \<Rightarrow> Response \<Rightarrow> Survey \<Rightarrow> Database \<times> (error + f64 \<times> int)" where
  "processRewards unrep db response survey =
     (case rewardRepo_GetPoolBySurveyID db (sv_ID survey) of
        Inl err \<Rightarrow> (db, Inl err)
      | Inr pool \<Rightarrow>
          if \<not> CanProcessReward pool then (db, Inl ''insufficient reward pool'')
          else
            let baseReward = sv_RewardPerResponse survey;
                qualityMultiplier = f64_div (resp_QualityScore response) (Fin 5);
                finalReward = f64_mul baseReward qualityMultiplier;
                xpEarned = go_int unrep
                  (f64_mul (f64_mul (f64_of_int (sv_EstimatedDuration survey)) (Fin 10))
                     qualityMultiplier);
                transaction = \<lparr>tx_ID = 0, tx_UserID = resp_UserID response,
                  tx_SurveyID = sv_ID survey, tx_ResponseID = Some (resp_ID response),
                  tx_PoolID = Some (pool_ID pool), tx_Type = TransactionTypeReward,
                  tx_Amount = finalReward, tx_Status = TransactionStatusPending\<rparr>
            in (case rewardRepo_ProcessReward db pool transaction of
                  (db1, Some err) \<Rightarrow> (db1, Inl err)
                | (db1, None) \<Rightarrow>
                    (userRepo_UpdateBalance db1 (resp_UserID response) finalReward
                       (f64_of_int xpEarned),
                     Inr (finalReward, xpEarned))))"

definition generateNFTCertificate :: "Response \<Rightarrow> Survey \<Rightarrow> string" where
  "generateNFTCertificate response survey =
     ''NFT-CERT-'' @ formatUint (sv_ID survey) @ ''-'' @ formatUint (resp_UserID response)
       @ ''-'' @ formatUint (resp_ID response)"

definition CompleteSurvey ::
  "(f64 \<Rightarrow> int) \<Rightarrow> time \<Rightarrow> Database \<Rightarrow> nat \<Rightarrow> CompleteSurveyRequest
     \<Rightarrow> Database \<times> (error + CompletionResponse)" where
  "CompleteSurvey unrep now db userID req =
     (case responseRepo_GetByID db (csr_ResponseID req) of
        Inl err \<Rightarrow> (db, Inl err)
      | Inr response \<Rightarrow>
          if resp_UserID response \<noteq> userID then (db, Inl ''unauthorized'')
          else if resp_Status response \<noteq> ResponseStatusStarted
          then (db, Inl ''response is not active'')
          else
            (case (if 0 < length (csr_Answers req)
                   then SubmitAnswers db userID (csr_ResponseID req) (csr_Answers req)
                   else (db, None)) of
               (db1, Some err) \<Rightarrow> (db1, Inl err)
             | (db1, None) \<Rightarrow>
                 (case surveyRepo_GetByID db1 (resp_SurveyID response) of
                    Inl err \<Rightarrow> (db1, Inl err)
                  | Inr survey \<Rightarrow>
                      let response1 = MarkAsCompleted now response;
                          response2 = response1\<lparr>resp_Duration := csr_Duration req\<rparr>;
                          response3 = response2\<lparr>resp_QualityScore :=
                                        calculateQualityScore response2 survey\<rparr>;
                          db2 = responseRepo_Update db1 response3
                      in (case processRewards unrep db2 response3 survey of
                            (db3, Inl err) \<Rightarrow> (db3, Inl err)
                          | (db3, Inr (rewardAmount, xpEarned)) \<Rightarrow>
                              (case surveyRepo_UpdateStatistics db3 (sv_ID survey) of
                                 (db4, Some err) \<Rightarrow> (db4, Inl err)
                               | (db4, None) \<Rightarrow>
                                   (db4, Inr \<lparr>cr_ResponseID = resp_ID response3,
                                      cr_Status = resp_Status response3,
                                      cr_CompletedAt = the (resp_CompletedAt response3),
                                      cr_Duration = resp_Duration response3,
                                      cr_RewardEarned = rewardAmount,
                                      cr_XpEarned = xpEarned,
                                      cr_NFTCertificate =
                                        Some (generateNFTCertificate response3 survey),
                                      cr_TransactionHash = None,
                                      cr_Message = ''Survey completed successfully! Your rewards will be processed shortly.''\<rparr>))))))"

definition StartSurvey ::
  "time \<Rightarrow> Database \<Rightarrow> nat \<Rightarrow> nat \<Rightarrow> StartSurveyRequest
     \<Rightarrow> Database \<times> (error + ResponseStartResponse)" where
  "StartSurvey now db userID surveyID req =
     (case surveyRepo_GetByID db surveyID of
        Inl err \<Rightarrow> (db, Inl err)
      | Inr survey \<Rightarrow>
          if \<not> IsActive now survey then (db, Inl ''survey is not active'')
          else if sv_RequireLogin survey \<and> userID = 0
          then (db, Inl ''login required to participate'')
          else if \<not> sv_AllowMultiple survey \<and> responseRepo_HasUserResponded db userID surveyID
          then (db, Inl ''user has already responded to this survey'')
          else if sv_MaxResponses survey \<le> sv_ResponseCount survey
          then (db, Inl ''survey has reached maximum participants'')
          else
            (case responseRepo_Create db
                    \<lparr>resp_ID = 0, resp_SurveyID = surveyID, resp_UserID = userID,
                     resp_Status = ResponseStatusStarted, resp_StartedAt = now,
                     resp_CompletedAt = None, resp_Duration = 0,
                     resp_IPAddress = ssr_IPAddress req, resp_UserAgent = ssr_UserAgent req,
                     resp_Timezone = ssr_Timezone req, resp_Language = ssr_Language req,
                     resp_QualityScore = Fin 0, resp_IsValid = True,
                     resp_Survey = zero_Survey, resp_Answers = [],
                     resp_Transaction = None\<rparr> of
               (db1, response) \<Rightarrow>
                 (db1, Inr \<lparr>rsr_ResponseID = resp_ID response, rsr_SurveyID = surveyID,
                    rsr_Status = resp_Status response, rsr_StartedAt = resp_StartedAt response,
                    rsr_TimeLeft = (if 0 < sv_EstimatedDuration survey
                                    then Some (wrap64 (sv_EstimatedDuration survey * 60)) else None)\<rparr>)))"

definition responseToDTO :: "(f64 \<Rightarrow> int) \<Rightarrow> Response \<Rightarrow> SurveyResponseResponse" where
  "responseToDTO unrep response =
     (let answers = map (\<lambda>answer. \<lparr>ar_ID = ans_ID answer, ar_QuestionID = ans_QuestionID answer,
                          ar_Answer = ans_AnswerValue answer, ar_TimeSpent = ans_TimeSpent answer,
                          ar_IsSkipped = ans_IsSkipped answer\<rparr>) (resp_Answers response);
          rewardEarned = (case resp_Transaction response of Some t \<Rightarrow> tx_Amount t | None \<Rightarrow> Fin 0);
          xpEarned = (case resp_Transaction response of
                        Some t \<Rightarrow> go_int unrep (f64_mul (tx_Amount t) (Fin 10)) | None \<Rightarrow> 0);
          nftCertificate = (if IsCompleted response
                            then Some (generateNFTCertificate response (resp_Survey response))
                            else None)
      in \<lparr>srr_ID = resp_ID response, srr_SurveyID = resp_SurveyID response,
          srr_UserID = resp_UserID response, srr_Status = resp_Status response,
          srr_StartedAt = resp_StartedAt response, srr_CompletedAt = resp_CompletedAt response,
          srr_Duration = resp_Duration response, srr_QualityScore = resp_QualityScore response,
          srr_IsValid = resp_IsValid response, srr_Answers = answers,
          srr_RewardEarned = rewardEarned, srr_XpEarned = xpEarned,
          srr_NFTCertificate = nftCertificate\<rparr>)"


text \<open>An element of a batch whose question id is one of the survey's questions.\<close>

definition resolvable :: "Survey \<Rightarrow> SubmitAnswerRequest \<Rightarrow> bool" where
  "resolvable survey answerReq =
     (case GetQuestionByID survey (sar_QuestionID answerReq) of Inl err \<Rightarrow> False
      | Inr question \<Rightarrow> True)"

section \<open>Example data\<close>

definition text_question :: Question where
  "text_question = \<lparr>q_ID = 1, q_SurveyID = 1, q_Type = QuestionTypeText, q_Required = True,
     q_MinLength = None, q_MaxLength = None, q_MinValue = None, q_MaxValue = None\<rparr>"

definition scale_question :: Question where
  "scale_question = \<lparr>q_ID = 2, q_SurveyID = 1, q_Type = QuestionTypeScale, q_Required = False,
     q_MinLength = None, q_MaxLength = None, q_MinValue = Some (Fin 1),
     q_MaxValue = Some (Fin 10)\<rparr>"

definition survey_one :: Survey where
  "survey_one = \<lparr>sv_ID = 1, sv_CreatorID = 3, sv_Title = ''Survey'',
     sv_Status = SurveyStatusPublished, sv_MaxResponses = 100, sv_RewardPerResponse = Fin 50,
     sv_TotalRewardPool = Fin 100, sv_StartDate = None, sv_EndDate = None,
     sv_EstimatedDuration = 10, sv_RequireLogin = True, sv_AllowMultiple = False,
     sv_ResponseCount = 0, sv_Questions = [text_question, scale_question]\<rparr>"

definition response_one :: Response where
  "response_one = \<lparr>resp_ID = 1, resp_SurveyID = 1, resp_UserID = 7,
     resp_Status = ResponseStatusStarted, resp_StartedAt = 1000, resp_CompletedAt = None,
     resp_Duration = 0, resp_IPAddress = [], resp_UserAgent = [], resp_Timezone = [],
     resp_Language = ''en'', resp_QualityScore = Fin 0, resp_IsValid = True,
     resp_Survey = zero_Survey, resp_Answers = [], resp_Transaction = None\<rparr>"

text \<open>A pool holding 30 with a reward of 50 per response.\<close>

definition pool_short :: RewardPool where
  "pool_short = \<lparr>pool_ID = 1, pool_SurveyID = 1, pool_TotalAmount = Fin 80,
     pool_RewardPerResponse = Fin 50, pool_MaxResponses = 100, pool_CurrentResponses = 1,
     pool_PaidOut = Fin 50, pool_RemainingAmount = Fin 30, pool_IsActive = True,
     pool_ContractAddress = None, pool_TxHash = None, pool_BlockNumber = None\<rparr>"

definition user_seven :: User where
  "user_seven = \<lparr>user_ID = 7, user_TotalEarned = Fin 0, user_TotalResponses = 0\<rparr>"

definition db_short :: Database where
  "db_short = \<lparr>db_surveys = [survey_one], db_responses = [response_one], db_answers = [],
     db_pools = [pool_short], db_transactions = [], db_users = [user_seven]\<rparr>"

definition db_funded :: Database where
  "db_funded = \<lparr>db_surveys = [survey_one], db_responses = [response_one], db_answers = [],
     db_pools = [pool_hundred], db_transactions = [], db_users = [user_seven]\<rparr>"

definition text_value :: "string \<Rightarrow> AnswerValue" where
  "text_value s = \<lparr>av_Type = ''text'', av_Content = ContentString s, av_Options = [],
     av_Rating = None, av_Scale = None, av_Date = None\<rparr>"

definition scale_value :: "int \<Rightarrow> AnswerValue" where
  "scale_value n = \<lparr>av_Type = ''scale'', av_Content = ContentNil, av_Options = [],
     av_Rating = None, av_Scale = Some n, av_Date = None\<rparr>"

definition rating_value :: "int \<Rightarrow> AnswerValue" where
  "rating_value n = \<lparr>av_Type = ''rating'', av_Content = ContentNil, av_Options = [],
     av_Rating = Some n, av_Scale = None, av_Date = None\<rparr>"

definition submit_request :: "nat \<Rightarrow> AnswerValue \<Rightarrow> bool \<Rightarrow> SubmitAnswerRequest" where
  "submit_request questionID v skipped =
     \<lparr>sar_QuestionID = questionID, sar_Answer = v, sar_TimeSpent = 20, sar_IsSkipped = skipped\<rparr>"

definition update_request :: "AnswerValue \<Rightarrow> bool \<Rightarrow> UpdateAnswerRequest" where
  "update_request v skipped = \<lparr>uar_Answer = v, uar_TimeSpent = 20, uar_IsSkipped = skipped\<rparr>"

definition start_request :: StartSurveyRequest where
  "start_request = \<lparr>ssr_SurveyID = 1, ssr_Timezone = ''UTC'', ssr_Language = ''en'',
     ssr_IPAddress = ''10.0.0.1'', ssr_UserAgent = ''agent''\<rparr>"

definition two_answers :: "SubmitAnswerRequest list" where
  "two_answers =
     [submit_request 1 (text_value ''fine'') False, submit_request 2 (scale_value 5) False]"

definition skipped_required :: SubmitAnswerRequest where
  "skipped_required = submit_request 1 (text_value '''') True"

definition complete_request :: CompleteSurveyRequest where
  "complete_request = \<lparr>csr_ResponseID = 1, csr_Answers = [], csr_Duration = 180\<rparr>"

text \<open>The funded database after the respondent has answered both questions.\<close>

definition db_answered :: Database where
  "db_answered = fst (SubmitAnswers db_funded 7 1 two_answers)"

definition completed_one :: Response where
  "completed_one = response_one\<lparr>resp_Status := ResponseStatusCompleted,
     resp_CompletedAt := Some 2000, resp_Duration := 180, resp_QualityScore := Fin 5,
     resp_Survey := survey_one\<rparr>"


text \<open>The same survey with an estimated duration of 20 minutes.\<close>

definition survey_twenty :: Survey where
  "survey_twenty = survey_one\<lparr>sv_EstimatedDuration := 20\<rparr>"

text \<open>A funded pool with room for one response only.\<close>

definition pool_last :: RewardPool where
  "pool_last = pool_hundred\<lparr>pool_MaxResponses := 1\<rparr>"

text \<open>A conversion of unrepresentable float64 values that yields 0.\<close>

definition no_conversion :: "f64 \<Rightarrow> int" where
  "no_conversion x = 0"

definition scale_five :: SubmitAnswerRequest where
  "scale_five = submit_request 2 (scale_value 5) False"

text \<open>A finite float64 of magnitude at most \<open>2^n\<close>.\<close>

definition mag :: "nat \<Rightarrow> f64 \<Rightarrow> bool" where
  "mag n x \<longleftrightarrow> (\<exists>r. x = Fin r \<and> \<bar>r\<bar> \<le> 2 ^ n)"

text \<open>A published survey without questions, which publishing does not let through.\<close>

definition survey_empty :: Survey where
  "survey_empty = survey_one\<lparr>sv_Questions := []\<rparr>"

section \<open>Evaluation rules\<close>

lemma scale_down_numeral:
  "scale_down (numeral n) y u =
     (if 2 ^ 53 \<le> y then scale_down (pred_numeral n) (y / 2) (u * 2) else (y, u))"
  by (simp add: numeral_eq_Suc)

lemma scale_up_numeral:
  "scale_up (numeral n) y u =
     (if y < 2 ^ 52 then scale_up (pred_numeral n) (y * 2) (u / 2) else (y, u))"
  by (simp add: numeral_eq_Suc)

lemmas f64_eval = round64_def rne64_def scale_down_numeral scale_up_numeral round_half_even_def
  Let_def f64_sub_def f64_gt_def f64_ge_def f64_le_def f64_of_int_def

lemmas pool_eval = ProcessReward_def CanProcessReward_def IsAvailable_def pool_invariant_def

lemmas status_defs = SurveyStatusPublished_def ResponseStatusStarted_def
  ResponseStatusCompleted_def ResponseStatusAbandoned_def QuestionTypeText_def
  QuestionTypeTextArea_def QuestionTypeRating_def QuestionTypeScale_def
  TransactionTypeReward_def TransactionStatusPending_def

lemmas example_defs = text_question_def scale_question_def survey_one_def response_one_def
  pool_short_def user_seven_def db_short_def db_funded_def text_value_def scale_value_def
  rating_value_def submit_request_def update_request_def start_request_def pool_hundred_def
  zero_Survey_def

lemmas repo_defs = surveyRepo_GetByID_def surveyRepo_UpdateStatistics_def
  userRepo_UpdateBalance_def responseRepo_GetByID_def responseRepo_Update_def
  responseRepo_Create_def responseRepo_HasUserResponded_def responseRepo_UpsertAnswer_def
  same_key_def rewardRepo_GetPoolBySurveyID_def rewardRepo_ProcessReward_def
  responseRepo_GetWithAnswers_def

lemmas service_defs = SubmitAnswers_def UpdateAnswer_def CompleteSurvey_def StartSurvey_def
  processRewards_def calculateQualityScore_def avgTimePerQuestion_def generateNFTCertificate_def answer_of_request_def
  extractAnswerText_def ValidateAnswer_def GetQuestionByID_def MarkAsCompleted_def
  CalculateDuration_def IsCompleted_def responseToDTO_def

lemmas more_example_defs = two_answers_def skipped_required_def complete_request_def
  db_answered_def scale_five_def

lemmas format_eval = formatUint.simps formatInt_def digit_char_def

section \<open>Properties of rounding\<close>

lemma scale_down_inv:
  "scale_down k y u = (z, v) \<Longrightarrow> 0 \<le> y \<Longrightarrow> 0 < u \<Longrightarrow> z * v = y * u \<and> 0 \<le> z \<and> 0 < v"
proof (induction k arbitrary: y u)
  case 0
  then show ?case by simp
next
  case (Suc k)
  show ?case
  proof (cases "2 ^ 53 \<le> y")
    case True
    with Suc.prems have "scale_down k (y / 2) (u * 2) = (z, v)" by simp
    from Suc.IH [OF this] Suc.prems show ?thesis by simp
  next
    case False
    with Suc.prems show ?thesis by simp
  qed
qed

lemma scale_up_inv:
  "scale_up k y u = (z, v) \<Longrightarrow> 0 \<le> y \<Longrightarrow> 0 < u \<Longrightarrow> z * v = y * u \<and> 0 \<le> z \<and> 0 < v"
proof (induction k arbitrary: y u)
  case 0
  then show ?case by simp
next
  case (Suc k)
  show ?case
  proof (cases "y < 2 ^ 52")
    case True
    with Suc.prems have "scale_up k (y * 2) (u / 2) = (z, v)" by simp
    from Suc.IH [OF this] Suc.prems show ?thesis by simp
  next
    case False
    with Suc.prems show ?thesis by simp
  qed
qed

lemma scale_up_int:
  "scale_up k (of_int m) u = (z, v) \<Longrightarrow> \<exists>m'. z = of_int m'"
proof (induction k arbitrary: m u)
  case 0
  then show ?case by auto
next
  case (Suc k)
  show ?case
  proof (cases "(of_int m :: real) < 2 ^ 52")
    case True
    with Suc.prems have "scale_up k (of_int (m * 2)) (u / 2) = (z, v)" by simp
    from Suc.IH [OF this] show ?thesis .
  next
    case False
    with Suc.prems show ?thesis by auto
  qed
qed

lemma round_half_even_bounds:
  assumes "0 \<le> z"
  shows "0 \<le> round_half_even z \<and> of_int (round_half_even z) \<le> 2 * z"
proof -
  let ?f = "\<lfloor>z\<rfloor>"
  have a: "of_int ?f \<le> z" by linarith
  have c: "0 \<le> ?f" using assms by simp
  then have d: "(0::real) \<le> of_int ?f" by simp
  consider (lo) "z - of_int ?f < 1 / 2" | (hi) "1 / 2 < z - of_int ?f"
    | (tie) "z - of_int ?f = 1 / 2" by linarith
  then show ?thesis
  proof cases
    case lo
    then have "round_half_even z = ?f" by (simp add: round_half_even_def Let_def)
    moreover have "of_int ?f \<le> 2 * z" using a assms by linarith
    ultimately show ?thesis using c by simp
  next
    case hi
    then have "round_half_even z = ?f + 1" by (simp add: round_half_even_def Let_def)
    moreover have "of_int ?f + 1 \<le> 2 * z" using hi d by linarith
    ultimately show ?thesis using c by simp
  next
    case tie
    then have "round_half_even z = ?f \<or> round_half_even z = ?f + 1"
      by (simp add: round_half_even_def Let_def)
    moreover have "of_int ?f + 1 \<le> 2 * z" using tie d by linarith
    ultimately show ?thesis using c d by auto
  qed
qed

lemma round_half_even_of_int: "round_half_even (of_int m) = m"
  by (simp add: round_half_even_def)

lemma rne64_form: "\<exists>c. rne64 x = sgn x * c \<and> 0 \<le> c \<and> c \<le> 2 * \<bar>x\<bar>"
proof -
  obtain y u where d: "scale_down 1024 \<bar>x\<bar> 1 = (y, u)" by (cases "scale_down 1024 \<bar>x\<bar> 1")
  obtain z v where e: "scale_up 1074 y u = (z, v)" by (cases "scale_up 1074 y u")
  from scale_down_inv [OF d] have 1: "y * u = \<bar>x\<bar>" "0 \<le> y" "0 < u" by simp_all
  from scale_up_inv [OF e 1(2) 1(3)] have 2: "z * v = y * u" "0 \<le> z" "0 < v" by simp_all
  from round_half_even_bounds [OF 2(2)]
  have 3: "0 \<le> round_half_even z" "of_int (round_half_even z) \<le> 2 * z" by simp_all
  let ?c = "of_int (round_half_even z) * v"
  have "rne64 x = sgn x * ?c" by (simp add: rne64_def d e)
  moreover have "0 \<le> ?c" using 3(1) 2(3) by simp
  moreover have "?c \<le> 2 * z * v" using 3(2) 2(3) by (simp add: mult_right_mono)
  then have "?c \<le> 2 * \<bar>x\<bar>" using 1(1) 2(1) by (simp add: mult.assoc)
  ultimately show ?thesis by blast
qed

lemma rne64_abs: "\<bar>rne64 x\<bar> \<le> 2 * \<bar>x\<bar>"
proof -
  obtain c where c: "rne64 x = sgn x * c" "0 \<le> c" "c \<le> 2 * \<bar>x\<bar>" using rne64_form by blast
  have "\<bar>rne64 x\<bar> = \<bar>sgn x\<bar> * c" using c by (simp add: abs_mult)
  also have "\<dots> \<le> c" using c(2) by (cases "x = 0") (simp_all add: abs_sgn_eq)
  finally show ?thesis using c(3) by simp
qed

lemma rne64_nonneg: "0 \<le> x \<Longrightarrow> 0 \<le> rne64 x"
proof -
  assume "0 \<le> x"
  obtain c where c: "rne64 x = sgn x * c" "0 \<le> c" using rne64_form by blast
  from \<open>0 \<le> x\<close> have "0 \<le> sgn x" by (simp add: sgn_if)
  with c show ?thesis by simp
qed

lemma rne64_of_int:
  assumes "\<bar>of_int n :: real\<bar> < 2 ^ 53"
  shows "rne64 (of_int n) = of_int n"
proof -
  have d: "scale_down 1024 \<bar>of_int n :: real\<bar> 1 = (\<bar>of_int n\<bar>, 1)"
    using assms by (simp add: scale_down_numeral)
  obtain z v where e: "scale_up 1074 (of_int \<bar>n\<bar>) 1 = (z :: real, v)"
    by (cases "scale_up 1074 (of_int \<bar>n\<bar>) (1 :: real)")
  from scale_up_int [OF e] obtain m where m: "z = of_int m" by blast
  from scale_up_inv [OF e] have p: "z * v = of_int \<bar>n\<bar>" by simp
  have "rne64 (of_int n) = sgn (of_int n) * of_int (round_half_even z) * v"
    using d e by (simp add: rne64_def)
  also have "\<dots> = sgn (of_int n) * (z * v)"
    by (simp add: m round_half_even_of_int)
  also have "\<dots> = of_int n" unfolding p by (simp add: sgn_if)
  finally show ?thesis .
qed

lemma small_power: "n < 1000 \<Longrightarrow> (2::real) ^ n < 2 ^ 1024 - 2 ^ 970"
proof -
  assume "n < 1000"
  then have "(2::real) ^ n \<le> 2 ^ 1000" by (intro power_increasing) simp_all
  also have "(2::real) ^ 1000 < 2 ^ 1024 - 2 ^ 970" by simp
  finally show ?thesis .
qed

lemma round64_mag: "\<bar>x\<bar> \<le> 2 ^ n \<Longrightarrow> n < 1000 \<Longrightarrow> mag (Suc n) (round64 x)"
proof -
  assume a: "\<bar>x\<bar> \<le> 2 ^ n" and b: "n < 1000"
  from small_power [OF b] a have "\<not> 2 ^ 1024 - 2 ^ 970 \<le> \<bar>x\<bar>" by linarith
  then have "round64 x = Fin (rne64 x)" by (simp add: round64_def)
  moreover have "\<bar>rne64 x\<bar> \<le> 2 ^ Suc n" using rne64_abs [of x] a by simp
  ultimately show ?thesis by (auto simp: mag_def)
qed


lemma round64_Fin: "\<bar>x\<bar> \<le> 2 ^ n \<Longrightarrow> n < 1000 \<Longrightarrow> round64 x = Fin (rne64 x)"
proof -
  assume a: "\<bar>x\<bar> \<le> 2 ^ n" and b: "n < 1000"
  from small_power [OF b] a have "\<not> 2 ^ 1024 - 2 ^ 970 \<le> \<bar>x\<bar>" by linarith
  then show ?thesis by (simp add: round64_def)
qed

lemma f64_of_int_exact: "\<bar>n\<bar> < 2 ^ 53 \<Longrightarrow> f64_of_int n = Fin (of_int n)"
proof -
  assume a: "\<bar>n\<bar> < 2 ^ 53"
  then have b: "\<bar>of_int n :: real\<bar> < 2 ^ 53"
    by (metis of_int_abs of_int_less_numeral_power_cancel_iff)
  then have "\<bar>of_int n :: real\<bar> \<le> 2 ^ 53" by simp
  from round64_Fin [OF this] rne64_of_int [OF b] show ?thesis
    by (simp add: f64_of_int_def)
qed

lemma mag_mono: "mag a x \<Longrightarrow> a \<le> b \<Longrightarrow> mag b x"
proof -
  assume "mag a x" and le: "a \<le> b"
  then obtain r where r: "x = Fin r" "\<bar>r\<bar> \<le> 2 ^ a" by (auto simp: mag_def)
  from le have "(2::real) ^ a \<le> 2 ^ b" by (intro power_increasing) simp_all
  with r(2) have "\<bar>r\<bar> \<le> 2 ^ b" by linarith
  with r(1) show ?thesis unfolding mag_def by blast
qed

lemma mul_mag:
  assumes "mag a x" "mag b y" "a + b < 1000"
  shows "mag (Suc (a + b)) (f64_mul x y)"
proof -
  from assms obtain r s where r: "x = Fin r" "\<bar>r\<bar> \<le> 2 ^ a" and s: "y = Fin s" "\<bar>s\<bar> \<le> 2 ^ b"
    by (auto simp: mag_def)
  have "\<bar>r * s\<bar> \<le> 2 ^ a * 2 ^ b"
    unfolding abs_mult using r(2) s(2) by (intro mult_mono) simp_all
  then have "\<bar>r * s\<bar> \<le> 2 ^ (a + b)" by (simp add: power_add)
  from round64_mag [OF this assms(3)] show ?thesis by (simp add: r s)
qed

lemma sub_mag:
  assumes "mag a x" "mag a y" "a < 998"
  shows "mag (Suc (Suc a)) (f64_sub x y)"
proof -
  from assms obtain r s where r: "x = Fin r" "\<bar>r\<bar> \<le> 2 ^ a" and s: "y = Fin s" "\<bar>s\<bar> \<le> 2 ^ a"
    by (auto simp: mag_def)
  have "\<bar>r + - s\<bar> \<le> 2 ^ Suc a" using r(2) s(2) by simp
  moreover have "Suc a < 1000" using assms(3) by simp
  ultimately have "mag (Suc (Suc a)) (round64 (r + - s))" by (rule round64_mag)
  then show ?thesis by (simp add: r s f64_sub_def)
qed

lemma div_mag:
  assumes "\<bar>r\<bar> \<le> 2 ^ a" "1 \<le> t" "a < 1000"
  shows "mag (Suc a) (f64_div (Fin r) (Fin t))"
proof -
  have "\<bar>r / t\<bar> \<le> \<bar>r\<bar>" using assms(2) by (simp add: abs_divide divide_le_eq mult_le_cancel_left1)
  also note assms(1)
  finally have "\<bar>r / t\<bar> \<le> 2 ^ a" .
  from round64_mag [OF this assms(3)] assms(2) show ?thesis by simp
qed

lemma count_skipped_required_bounds:
  "0 \<le> count_skipped_required answers questions
   \<and> count_skipped_required answers questions \<le> int (length answers)"
  by (induction answers) auto


lemma mag_Fin: "\<bar>r\<bar> \<le> 2 ^ n \<Longrightarrow> mag n (Fin r)"
  by (simp add: mag_def)

lemma rne64_zero: "rne64 0 = 0"
  by (simp add: rne64_def split: prod.splits)

lemma round64_zero: "round64 0 = Fin 0"
  by (simp add: round64_def rne64_zero)

lemma round64_nonneg_mag:
  assumes "0 \<le> x" "x \<le> 2 ^ n" "n < 1000"
  shows "\<exists>r. round64 x = Fin r \<and> 0 \<le> r \<and> r \<le> 2 ^ Suc n"
proof -
  from assms have a: "\<bar>x\<bar> \<le> 2 ^ n" by simp
  from round64_Fin [OF a assms(3)] have "round64 x = Fin (rne64 x)" .
  moreover have "0 \<le> rne64 x" using assms(1) by (rule rne64_nonneg)
  moreover have "rne64 x \<le> 2 ^ Suc n" using rne64_abs [of x] a by simp
  ultimately show ?thesis by blast
qed

lemma go_int_floor: "0 \<le> v \<Longrightarrow> v \<le> 2 ^ 60 \<Longrightarrow> go_int unrep (Fin v) = \<lfloor>v\<rfloor>"
proof -
  assume a: "0 \<le> v" and b: "v \<le> 2 ^ 60"
  have "\<lfloor>v\<rfloor> \<le> \<lfloor>(2::real) ^ 60\<rfloor>" using b by (rule floor_mono)
  then have "\<lfloor>v\<rfloor> \<le> 2 ^ 60" by simp
  then have "\<lfloor>v\<rfloor> < 2 ^ 63" by simp
  moreover have "0 \<le> \<lfloor>v\<rfloor>" using a by simp
  ultimately show ?thesis using a by (simp add: go_int_def Let_def)
qed

lemma xp_floor:
  assumes "0 \<le> q" "q \<le> 5" "0 \<le> est" "est < 2 ^ 53"
  shows "\<exists>v. f64_mul (f64_mul (f64_of_int est) (Fin 10)) (f64_div (Fin q) (Fin 5)) = Fin v
    \<and> go_int unrep (f64_mul (f64_mul (f64_of_int est) (Fin 10)) (f64_div (Fin q) (Fin 5)))
        = \<lfloor>v\<rfloor>"
proof -
  have fe: "f64_of_int est = Fin (of_int est)" using assms by (intro f64_of_int_exact) simp
  have e0: "(0::real) \<le> of_int est * 10" using assms by simp
  have "(of_int est :: real) \<le> 2 ^ 53"
    using assms by (metis less_imp_le of_int_le_numeral_power_cancel_iff)
  then have e1: "(of_int est :: real) * 10 \<le> 2 ^ 57" by simp
  from round64_nonneg_mag [OF e0 e1] obtain b where
    b: "round64 (of_int est * 10) = Fin b" "0 \<le> b" "b \<le> 2 ^ 58" by auto
  have q0: "0 \<le> q / 5" using assms by simp
  have q1: "q / 5 \<le> 2 ^ 0" using assms by simp
  from round64_nonneg_mag [OF q0 q1] obtain m where
    m: "round64 (q / 5) = Fin m" "0 \<le> m" "m \<le> 2 ^ 1" by auto
  have p0: "0 \<le> b * m" using b m by simp
  have "b * m \<le> 2 ^ 58 * 2 ^ 1" using b m by (intro mult_mono) simp_all
  then have p1: "b * m \<le> 2 ^ 59" by simp
  from round64_nonneg_mag [OF p0 p1] obtain v where
    v: "round64 (b * m) = Fin v" "0 \<le> v" "v \<le> 2 ^ 60" by auto
  have "f64_mul (f64_mul (f64_of_int est) (Fin 10)) (f64_div (Fin q) (Fin 5)) = Fin v"
    by (simp add: fe b m v)
  with go_int_floor [OF v(2) v(3)] show ?thesis by simp
qed

section \<open>Properties of the reward pool\<close>

text \<open>
  Claim C10. \<^verbatim>\<open>ProcessReward\<close> leaves the identifier, the survey id, the total amount,
  the reward per response, the maximum number of responses and the contract fields of the
  pool as they were, in every call; and when \<^verbatim>\<open>CanProcessReward\<close> is false it returns
  its error with the whole pool unchanged.
\<close>

theorem ProcessReward_frame:
  "pool_ID (fst (ProcessReward rp)) = pool_ID rp
   \<and> pool_SurveyID (fst (ProcessReward rp)) = pool_SurveyID rp
   \<and> pool_TotalAmount (fst (ProcessReward rp)) = pool_TotalAmount rp
   \<and> pool_RewardPerResponse (fst (ProcessReward rp)) = pool_RewardPerResponse rp
   \<and> pool_MaxResponses (fst (ProcessReward rp)) = pool_MaxResponses rp
   \<and> pool_ContractAddress (fst (ProcessReward rp)) = pool_ContractAddress rp
   \<and> pool_TxHash (fst (ProcessReward rp)) = pool_TxHash rp
   \<and> pool_BlockNumber (fst (ProcessReward rp)) = pool_BlockNumber rp
   \<and> (\<not> CanProcessReward rp \<longrightarrow>
        ProcessReward rp =
          (rp, Some ''cannot process reward: insufficient funds or pool inactive''))"
  by (simp add: ProcessReward_def Let_def)

theorem ProcessReward_frame_witness:
  "\<not> CanProcessReward (pool_hundred\<lparr>pool_IsActive := False\<rparr>)
   \<and> ProcessReward (pool_hundred\<lparr>pool_IsActive := False\<rparr>) =
       (pool_hundred\<lparr>pool_IsActive := False\<rparr>,
        Some ''cannot process reward: insufficient funds or pool inactive'')
   \<and> pool_TotalAmount (fst (ProcessReward pool_hundred)) = Fin 100
   \<and> pool_CurrentResponses (fst (ProcessReward pool_hundred)) = 1"
  using ProcessReward_frame [of "pool_hundred\<lparr>pool_IsActive := False\<rparr>"]
    ProcessReward_frame [of pool_hundred]
  by (simp add: pool_eval pool_hundred_def f64_eval)

text \<open>
  Claim C2, as stated, fails on float64 amounts: with total 1, paid out 0.2, remaining 0.8
  and a reward of 0.1 the invariant holds before the call, the call succeeds, and afterwards
  the remaining amount is 0.7000000000000001 while total minus paid out is 0.7.
\<close>

theorem ProcessReward_invariant_counterexample:
  "pool_invariant pool_tenths \<and> snd (ProcessReward pool_tenths) = None
   \<and> \<not> pool_invariant (fst (ProcessReward pool_tenths))"
  by (simp add: pool_eval pool_tenths_def f64_eval d01_def d02_def d08_def)

lemma ProcessReward_exact:
  assumes ok: "ProcessReward rp = (rp', None)"
    and inv: "pool_invariant rp"
    and fin: "pool_TotalAmount rp = Fin t" "pool_PaidOut rp = Fin d"
      "pool_RewardPerResponse rp = Fin w"
    and exact: "round64 (t - d) = Fin (t - d)" "round64 (d + w) = Fin (d + w)"
      "round64 (t - d - w) = Fin (t - d - w)"
  shows "pool_invariant rp' \<and> f64_le (pool_PaidOut rp') (pool_TotalAmount rp')"
proof -
  from ok have can: "CanProcessReward rp"
    by (auto simp: ProcessReward_def split: if_splits)
  from inv fin exact have rem: "pool_RemainingAmount rp = Fin (t - d)"
    by (cases "pool_RemainingAmount rp") (simp_all add: pool_invariant_def f64_sub_def)
  from can rem fin have le: "w \<le> t - d"
    by (auto simp: CanProcessReward_def IsAvailable_def f64_ge_def f64_le_def)
  have paid: "pool_PaidOut rp' = Fin (d + w)"
    using ok can fin exact by (auto simp: ProcessReward_def Let_def split: if_splits)
  have rem': "pool_RemainingAmount rp' = Fin (t - d - w)"
    using ok can fin rem exact
    by (auto simp: ProcessReward_def Let_def f64_sub_def split: if_splits)
  have tot: "pool_TotalAmount rp' = Fin t"
    using ok can fin by (auto simp: ProcessReward_def Let_def split: if_splits)
  have sub: "t - (d + w) = t - d - w" by simp
  have "t + - (d + w) = t - (d + w)" by simp
  then have "f64_sub (Fin t) (Fin (d + w)) = round64 (t - (d + w))"
    unfolding f64_sub_def f64_neg.simps f64_add.simps by (rule arg_cong)
  then have "f64_sub (pool_TotalAmount rp') (pool_PaidOut rp') = Fin (t - d - w)"
    unfolding paid tot sub using exact(3) by simp
  then have "pool_invariant rp'"
    unfolding pool_invariant_def rem' by simp
  moreover have "f64_le (pool_PaidOut rp') (pool_TotalAmount rp')"
    using paid tot le by (auto simp: f64_le_def)
  ultimately show ?thesis by blast
qed

lemma ProcessReward_flag:
  assumes ok: "ProcessReward rp = (rp', None)"
  shows "pool_IsActive rp' \<longleftrightarrow>
         \<not> (pool_MaxResponses rp' \<le> pool_CurrentResponses rp'
            \<or> f64_lt (pool_RemainingAmount rp') (pool_RewardPerResponse rp'))"
proof -
  from ok have can: "CanProcessReward rp"
    by (auto simp: ProcessReward_def split: if_splits)
  then have act: "pool_IsActive rp" by (simp add: CanProcessReward_def IsAvailable_def)
  show ?thesis
    using ok can act by (auto simp: ProcessReward_def Let_def split: if_splits)
qed

text \<open>
  Claim C2, amended. After every successful \<^verbatim>\<open>ProcessReward\<close> the pool is active exactly
  if neither the capacity nor the funds are exhausted after the debit; and a successful call
  on a pool whose invariant holds preserves the invariant and keeps paid out at most the
  total, provided the float64 sums and differences involved are exact (no rounding occurs).
\<close>

theorem ProcessReward_invariant:
  assumes ok: "ProcessReward rp = (rp', None)"
  shows "(pool_IsActive rp' \<longleftrightarrow>
         \<not> (pool_MaxResponses rp' \<le> pool_CurrentResponses rp'
            \<or> f64_lt (pool_RemainingAmount rp') (pool_RewardPerResponse rp')))
    \<and> (\<forall>t d w. pool_invariant rp
          \<and> pool_TotalAmount rp = Fin t \<and> pool_PaidOut rp = Fin d
          \<and> pool_RewardPerResponse rp = Fin w
          \<and> round64 (t - d) = Fin (t - d) \<and> round64 (d + w) = Fin (d + w)
          \<and> round64 (t - d - w) = Fin (t - d - w)
        \<longrightarrow> pool_invariant rp' \<and> f64_le (pool_PaidOut rp') (pool_TotalAmount rp'))"
  using ProcessReward_flag [OF ok] ProcessReward_exact [OF ok] by blast

theorem ProcessReward_invariant_witness:
  "ProcessReward pool_hundred = (fst (ProcessReward pool_hundred), None)
   \<and> pool_invariant pool_hundred
   \<and> round64 (100 - 0) = Fin (100 - 0) \<and> round64 (0 + 50) = Fin (0 + 50)
   \<and> round64 (100 - 0 - 50) = Fin (100 - 0 - 50)
   \<and> pool_invariant (fst (ProcessReward pool_hundred))
   \<and> f64_le (pool_PaidOut (fst (ProcessReward pool_hundred)))
         (pool_TotalAmount (fst (ProcessReward pool_hundred)))
   \<and> pool_PaidOut (fst (ProcessReward pool_hundred)) = Fin 50
   \<and> pool_RemainingAmount (fst (ProcessReward pool_hundred)) = Fin 50
   \<and> pool_IsActive (fst (ProcessReward pool_hundred))
   \<and> ProcessReward pool_last = (fst (ProcessReward pool_last), None)
   \<and> pool_MaxResponses (fst (ProcessReward pool_last))
       \<le> pool_CurrentResponses (fst (ProcessReward pool_last))
   \<and> \<not> pool_IsActive (fst (ProcessReward pool_last))
   \<and> ProcessReward pool_tenths = (fst (ProcessReward pool_tenths), None)
   \<and> \<not> pool_invariant (fst (ProcessReward pool_tenths))
   \<and> pool_IsActive (fst (ProcessReward pool_tenths))"
proof -
  have ok: "ProcessReward pool_hundred = (fst (ProcessReward pool_hundred), None)"
    by (simp add: pool_eval pool_hundred_def f64_eval)
  have inv: "pool_invariant pool_hundred"
    by (simp add: pool_eval pool_hundred_def f64_eval)
  have f: "pool_TotalAmount pool_hundred = Fin 100 \<and> pool_PaidOut pool_hundred = Fin 0
     \<and> pool_RewardPerResponse pool_hundred = Fin 50"
    by (simp add: pool_hundred_def)
  have e: "round64 (100 - 0) = Fin (100 - 0) \<and> round64 (0 + 50) = Fin (0 + 50)
     \<and> round64 (100 - 0 - 50) = Fin (100 - 0 - 50)"
    by (simp add: f64_eval)
  have vals: "pool_PaidOut (fst (ProcessReward pool_hundred)) = Fin 50
     \<and> pool_RemainingAmount (fst (ProcessReward pool_hundred)) = Fin 50
     \<and> pool_MaxResponses (fst (ProcessReward pool_hundred)) = 100
     \<and> pool_CurrentResponses (fst (ProcessReward pool_hundred)) = 1
     \<and> pool_RewardPerResponse (fst (ProcessReward pool_hundred)) = Fin 50"
    by (simp add: pool_eval pool_hundred_def f64_eval)
  have okl: "ProcessReward pool_last = (fst (ProcessReward pool_last), None)"
    by (simp add: pool_eval pool_last_def pool_hundred_def f64_eval)
  have full: "pool_MaxResponses (fst (ProcessReward pool_last))
       \<le> pool_CurrentResponses (fst (ProcessReward pool_last))"
    by (simp add: pool_eval pool_last_def pool_hundred_def f64_eval)
  have okt: "ProcessReward pool_tenths = (fst (ProcessReward pool_tenths), None)"
    by (simp add: pool_eval pool_tenths_def f64_eval d01_def d02_def d08_def)
  have tv: "\<not> pool_invariant (fst (ProcessReward pool_tenths))
     \<and> \<not> pool_MaxResponses (fst (ProcessReward pool_tenths))
           \<le> pool_CurrentResponses (fst (ProcessReward pool_tenths))
     \<and> \<not> f64_lt (pool_RemainingAmount (fst (ProcessReward pool_tenths)))
           (pool_RewardPerResponse (fst (ProcessReward pool_tenths)))"
    by (simp add: pool_eval pool_tenths_def f64_eval d01_def d02_def d08_def)
  note t1 = ProcessReward_invariant [OF ok]
  note t2 = ProcessReward_invariant [OF okl]
  note t3 = ProcessReward_invariant [OF okt]
  have a1: "pool_IsActive (fst (ProcessReward pool_hundred))"
    using t1 vals by simp
  have a2: "pool_invariant (fst (ProcessReward pool_hundred))
     \<and> f64_le (pool_PaidOut (fst (ProcessReward pool_hundred)))
         (pool_TotalAmount (fst (ProcessReward pool_hundred)))"
    using t1 inv f e by blast
  have a3: "\<not> pool_IsActive (fst (ProcessReward pool_last))"
    using t2 full by blast
  have a4: "pool_IsActive (fst (ProcessReward pool_tenths))"
    using t3 tv by blast
  from ok inv e vals okl full okt tv a1 a2 a3 a4 show ?thesis by blast
qed

section \<open>Starting a response\<close>

text \<open>
  Claim C9. \<^verbatim>\<open>StartSurvey\<close> never fails with "survey has reached maximum participants":
  a survey whose response count has reached its maximum already fails the \<^verbatim>\<open>IsActive\<close>
  check, so every capacity rejection is reported as "survey is not active".
\<close>

theorem StartSurvey_capacity:
  "snd (StartSurvey now db userID surveyID req) \<noteq> Inl ''survey has reached maximum participants''
   \<and> (\<forall>survey. surveyRepo_GetByID db surveyID = Inr survey
          \<and> sv_MaxResponses survey \<le> sv_ResponseCount survey
        \<longrightarrow> StartSurvey now db userID surveyID req = (db, Inl ''survey is not active''))"
  by (auto simp: StartSurvey_def IsActive_def surveyRepo_GetByID_def Let_def
      split: sum.splits option.splits prod.splits if_splits)

theorem StartSurvey_capacity_witness:
  "surveyRepo_GetByID (db_short\<lparr>db_surveys := [survey_one\<lparr>sv_ResponseCount := 100\<rparr>]\<rparr>) 1
     = Inr (survey_one\<lparr>sv_ResponseCount := 100\<rparr>)
   \<and> sv_MaxResponses (survey_one\<lparr>sv_ResponseCount := 100\<rparr>)
       \<le> sv_ResponseCount (survey_one\<lparr>sv_ResponseCount := 100\<rparr>)
   \<and> StartSurvey 2000 (db_short\<lparr>db_surveys := [survey_one\<lparr>sv_ResponseCount := 100\<rparr>]\<rparr>) 8 1
        start_request
      = (db_short\<lparr>db_surveys := [survey_one\<lparr>sv_ResponseCount := 100\<rparr>]\<rparr>,
         Inl ''survey is not active'')"
proof -
  have a: "surveyRepo_GetByID (db_short\<lparr>db_surveys := [survey_one\<lparr>sv_ResponseCount := 100\<rparr>]\<rparr>) 1
     = Inr (survey_one\<lparr>sv_ResponseCount := 100\<rparr>)"
    by (simp add: surveyRepo_GetByID_def db_short_def survey_one_def)
  have b: "sv_MaxResponses (survey_one\<lparr>sv_ResponseCount := 100\<rparr>)
       \<le> sv_ResponseCount (survey_one\<lparr>sv_ResponseCount := 100\<rparr>)"
    by (simp add: survey_one_def)
  from StartSurvey_capacity [of 2000
      "db_short\<lparr>db_surveys := [survey_one\<lparr>sv_ResponseCount := 100\<rparr>]\<rparr>" 8 1 start_request] a b
  show ?thesis by blast
qed

section \<open>Answer validation\<close>

text \<open>
  Claim C7 at a scale question with bounds 1 and 10: an answer carrying 15 in its scale field
  passes validation, while the same value in the rating field is rejected. The range check of
  \<^verbatim>\<open>ValidateAnswer\<close> reads the rating field only.
\<close>

theorem ValidateAnswer_scale_unchecked:
  "ValidateAnswer (answer_of_request 1 (submit_request 2 (scale_value 15) False)) scale_question
     = None
   \<and> ValidateAnswer (answer_of_request 1 (submit_request 2 (rating_value 15) False)) scale_question
       = Some ''rating above maximum''"
  by (simp add: ValidateAnswer_def answer_of_request_def example_defs status_defs f64_eval)

section \<open>Lookups\<close>





section \<open>Submitting answers\<close>

lemma submit_loop_append:
  "submit_loop db s rid (xs @ ys) =
     (case submit_loop db s rid xs of
        (db', Some e) \<Rightarrow> (db', Some e)
      | (db', None) \<Rightarrow> submit_loop db' s rid ys)"
  by (induction xs arbitrary: db) (auto split: sum.splits option.splits)

text \<open>
  Claim C4, as stated, fails: a batch of a valid answer to question 2 followed by a skipped
  answer to the required question 1 returns the validation error, and the answer to question 2
  has been stored.
\<close>

theorem SubmitAnswers_partial_counterexample:
  "snd (SubmitAnswers db_short 7 1 [submit_request 2 (scale_value 5) False, skipped_required])
     = Some ''answer is required''
   \<and> db_answers db_short = []
   \<and> map ans_QuestionID (db_answers (fst (SubmitAnswers db_short 7 1
         [submit_request 2 (scale_value 5) False, skipped_required]))) = [2]"
  by (simp add: service_defs repo_defs example_defs more_example_defs status_defs format_eval)

lemma submit_loop_fold:
  "snd (submit_loop db s rid xs) = None \<Longrightarrow>
   fst (submit_loop db s rid xs) =
     foldl responseRepo_UpsertAnswer db (map (answer_of_request rid) (filter (resolvable s) xs))"
  by (induction xs arbitrary: db) (auto simp: resolvable_def split: sum.splits option.splits)

lemma upsert_stores:
  "\<exists>b \<in> set (db_answers (responseRepo_UpsertAnswer db a)). b = a\<lparr>ans_ID := ans_ID b\<rparr>"
proof (cases "list_ex (same_key a) (db_answers db)")
  case True
  then obtain x where x: "x \<in> set (db_answers db)" "same_key a x"
    unfolding list_ex_iff by blast
  let ?f = "\<lambda>x. if same_key a x then a\<lparr>ans_ID := ans_ID x\<rparr> else x"
  have "db_answers (responseRepo_UpsertAnswer db a) = map ?f (db_answers db)"
    using True by (simp add: responseRepo_UpsertAnswer_def)
  moreover have "?f x \<in> set (map ?f (db_answers db))"
    using x(1) by (simp only: set_map) (rule imageI)
  moreover have "?f x = a\<lparr>ans_ID := ans_ID x\<rparr>" using x(2) by simp
  ultimately have m: "a\<lparr>ans_ID := ans_ID x\<rparr> \<in> set (db_answers (responseRepo_UpsertAnswer db a))"
    by simp
  show ?thesis
    by (rule bexI [OF _ m]) simp
next
  case False
  let ?b = "a\<lparr>ans_ID := Suc (fold max (map ans_ID (db_answers db)) 0)\<rparr>"
  have m: "?b \<in> set (db_answers (responseRepo_UpsertAnswer db a))"
    using False by (simp add: responseRepo_UpsertAnswer_def)
  show ?thesis
    by (rule bexI [OF _ m]) simp
qed

lemma upsert_keeps:
  assumes "\<exists>b \<in> set (db_answers db). b = a\<lparr>ans_ID := ans_ID b\<rparr>" and "\<not> same_key c a"
  shows "\<exists>b \<in> set (db_answers (responseRepo_UpsertAnswer db c)). b = a\<lparr>ans_ID := ans_ID b\<rparr>"
proof -
  from assms(1) obtain b where b: "b \<in> set (db_answers db)" "b = a\<lparr>ans_ID := ans_ID b\<rparr>"
    by blast
  from arg_cong [OF b(2), of ans_ResponseID] have r: "ans_ResponseID b = ans_ResponseID a"
    by simp
  from arg_cong [OF b(2), of ans_QuestionID] have q: "ans_QuestionID b = ans_QuestionID a"
    by simp
  from assms(2) r q have nk: "\<not> same_key c b" by (simp add: same_key_def)
  let ?f = "\<lambda>x. if same_key c x then c\<lparr>ans_ID := ans_ID x\<rparr> else x"
  have m: "b \<in> set (db_answers (responseRepo_UpsertAnswer db c))"
  proof (cases "list_ex (same_key c) (db_answers db)")
    case True
    then have "db_answers (responseRepo_UpsertAnswer db c) = map ?f (db_answers db)"
      by (simp add: responseRepo_UpsertAnswer_def)
    moreover have "?f b \<in> set (map ?f (db_answers db))"
      using b(1) by (simp only: set_map) (rule imageI)
    moreover have "?f b = b" using nk by simp
    ultimately show ?thesis by simp
  next
    case False
    then show ?thesis using b(1) by (simp add: responseRepo_UpsertAnswer_def)
  qed
  show ?thesis
    by (rule bexI [OF _ m]) (rule b(2))
qed

lemma fold_keeps:
  assumes "\<exists>b \<in> set (db_answers db). b = a\<lparr>ans_ID := ans_ID b\<rparr>"
    and "\<forall>c \<in> set cs. \<not> same_key c a"
  shows "\<exists>b \<in> set (db_answers (foldl responseRepo_UpsertAnswer db cs)). b = a\<lparr>ans_ID := ans_ID b\<rparr>"
  using assms
proof (induction cs arbitrary: db)
  case Nil
  then show ?case by simp
next
  case (Cons c cs)
  from Cons.prems have "\<not> same_key c a" by simp
  from upsert_keeps [OF Cons.prems(1) this]
  have "\<exists>b \<in> set (db_answers (responseRepo_UpsertAnswer db c)). b = a\<lparr>ans_ID := ans_ID b\<rparr>" .
  from Cons.IH [OF this] Cons.prems(2) show ?case by simp
qed

lemma fold_last_stored:
  assumes "\<forall>c \<in> set cs. \<not> same_key c a"
  shows "\<exists>b \<in> set (db_answers (foldl responseRepo_UpsertAnswer db (bs @ a # cs))).
           b = a\<lparr>ans_ID := ans_ID b\<rparr>"
proof -
  have "foldl responseRepo_UpsertAnswer db (bs @ a # cs) =
      foldl responseRepo_UpsertAnswer
        (responseRepo_UpsertAnswer (foldl responseRepo_UpsertAnswer db bs) a) cs"
    by simp
  with fold_keeps [OF upsert_stores assms] show ?thesis by simp
qed

text \<open>
  Claim C4, amended. When an answer of the batch fails validation, \<^verbatim>\<open>SubmitAnswers\<close>
  stops there and returns that validation error. The database is then the one obtained by
  upserting, in order, the answers before the failing one whose question the survey has:
  those earlier answers are stored (each earlier answer that is the last one of the batch
  prefix for its question is in the answers table with its content), and the failing answer
  and every later answer of the batch are not processed.
\<close>

theorem SubmitAnswers_abort:
  assumes "responseRepo_GetByID db responseID = Inr response"
    and "resp_UserID response = userID"
    and "resp_Status response = ResponseStatusStarted"
    and "surveyRepo_GetByID db (resp_SurveyID response) = Inr survey"
    and "snd (SubmitAnswers db userID responseID pre) = None"
    and "GetQuestionByID survey (sar_QuestionID bad) = Inr question"
    and "ValidateAnswer (answer_of_request responseID bad) question = Some err"
  shows "SubmitAnswers db userID responseID (pre @ bad # post)
      = (fst (SubmitAnswers db userID responseID pre), Some err)
    \<and> fst (SubmitAnswers db userID responseID (pre @ bad # post))
      = foldl responseRepo_UpsertAnswer db
          (map (answer_of_request responseID) (filter (resolvable survey) pre))
    \<and> (\<forall>ys x zs. pre = ys @ x # zs \<and> resolvable survey x
          \<and> (\<forall>z \<in> set zs. sar_QuestionID z \<noteq> sar_QuestionID x)
        \<longrightarrow> (\<exists>b \<in> set (db_answers (fst (SubmitAnswers db userID responseID (pre @ bad # post)))).
               b = (answer_of_request responseID x)\<lparr>ans_ID := ans_ID b\<rparr>))"
proof -
  have pre: "SubmitAnswers db userID responseID pre = submit_loop db survey responseID pre"
    using assms(1-4) by (simp add: SubmitAnswers_def)
  have 1: "SubmitAnswers db userID responseID (pre @ bad # post)
      = (fst (SubmitAnswers db userID responseID pre), Some err)"
    using assms
    by (auto simp: SubmitAnswers_def submit_loop_append split: prod.splits option.splits)
  have 2: "fst (SubmitAnswers db userID responseID pre)
      = foldl responseRepo_UpsertAnswer db
          (map (answer_of_request responseID) (filter (resolvable survey) pre))"
    using assms(5) unfolding pre by (rule submit_loop_fold)
  have 3: "\<exists>b \<in> set (db_answers (fst (SubmitAnswers db userID responseID (pre @ bad # post)))).
               b = (answer_of_request responseID x)\<lparr>ans_ID := ans_ID b\<rparr>"
    if p: "pre = ys @ x # zs" and r: "resolvable survey x"
      and l: "\<forall>z \<in> set zs. sar_QuestionID z \<noteq> sar_QuestionID x" for ys x zs
  proof -
    let ?f = "map (answer_of_request responseID) \<circ> filter (resolvable survey)"
    have split: "?f pre = ?f ys @ answer_of_request responseID x # ?f zs"
      using p r by simp
    have "\<forall>c \<in> set (?f zs). \<not> same_key c (answer_of_request responseID x)"
      using l by (auto simp: same_key_def answer_of_request_def)
    from fold_last_stored [OF this, of db "?f ys"] show ?thesis
      unfolding 1 fst_conv 2 using split by simp
  qed
  have 4: "fst (SubmitAnswers db userID responseID (pre @ bad # post))
      = foldl responseRepo_UpsertAnswer db
          (map (answer_of_request responseID) (filter (resolvable survey) pre))"
    unfolding 1 fst_conv by (rule 2)
  from 1 4 3 show ?thesis by blast
qed

theorem SubmitAnswers_abort_witness:
  "responseRepo_GetByID db_short 1 = Inr response_one
   \<and> snd (SubmitAnswers db_short 7 1 [scale_five]) = None
   \<and> GetQuestionByID survey_one (sar_QuestionID skipped_required) = Inr text_question
   \<and> ValidateAnswer (answer_of_request 1 skipped_required) text_question
       = Some ''answer is required''
   \<and> resolvable survey_one scale_five
   \<and> SubmitAnswers db_short 7 1 ([scale_five] @ skipped_required # two_answers)
       = (fst (SubmitAnswers db_short 7 1 [scale_five]), Some ''answer is required'')
   \<and> fst (SubmitAnswers db_short 7 1 ([scale_five] @ skipped_required # two_answers))
       = responseRepo_UpsertAnswer db_short (answer_of_request 1 scale_five)
   \<and> db_answers (responseRepo_UpsertAnswer db_short (answer_of_request 1 scale_five))
       = [(answer_of_request 1 scale_five)\<lparr>ans_ID := 1\<rparr>]
   \<and> (\<exists>b \<in> set (db_answers (fst (SubmitAnswers db_short 7 1
                ([scale_five] @ skipped_required # two_answers)))).
         b = (answer_of_request 1 scale_five)\<lparr>ans_ID := ans_ID b\<rparr>)"
proof -
  have a: "responseRepo_GetByID db_short 1 = Inr response_one"
    by (simp add: repo_defs example_defs)
  have b: "resp_UserID response_one = 7" by (simp add: example_defs)
  have c: "resp_Status response_one = ResponseStatusStarted" by (simp add: example_defs)
  have d: "surveyRepo_GetByID db_short (resp_SurveyID response_one) = Inr survey_one"
    by (simp add: repo_defs example_defs)
  have e: "snd (SubmitAnswers db_short 7 1 [scale_five]) = None"
    by (simp add: service_defs repo_defs example_defs more_example_defs status_defs format_eval)
  have f: "GetQuestionByID survey_one (sar_QuestionID skipped_required) = Inr text_question"
    by (simp add: service_defs example_defs more_example_defs)
  have g: "ValidateAnswer (answer_of_request 1 skipped_required) text_question
     = Some ''answer is required''"
    by (simp add: service_defs example_defs more_example_defs)
  have r: "resolvable survey_one scale_five"
    by (simp add: resolvable_def GetQuestionByID_def example_defs more_example_defs)
  have u: "db_answers (responseRepo_UpsertAnswer db_short (answer_of_request 1 scale_five))
       = [(answer_of_request 1 scale_five)\<lparr>ans_ID := 1\<rparr>]"
    by (simp add: repo_defs db_short_def)
  note th = SubmitAnswers_abort [OF a b c d e f g, of two_answers]
  from th have t1: "SubmitAnswers db_short 7 1 ([scale_five] @ skipped_required # two_answers)
       = (fst (SubmitAnswers db_short 7 1 [scale_five]), Some ''answer is required'')"
    by blast
  from th have tA: "fst (SubmitAnswers db_short 7 1 ([scale_five] @ skipped_required # two_answers))
       = foldl responseRepo_UpsertAnswer db_short
           (map (answer_of_request 1) (filter (resolvable survey_one) [scale_five]))"
    by blast
  have fl: "foldl responseRepo_UpsertAnswer db_short
           (map (answer_of_request 1) (filter (resolvable survey_one) [scale_five]))
       = responseRepo_UpsertAnswer db_short (answer_of_request 1 scale_five)"
    using r by simp
  from tA fl have t2: "fst (SubmitAnswers db_short 7 1 ([scale_five] @ skipped_required # two_answers))
       = responseRepo_UpsertAnswer db_short (answer_of_request 1 scale_five)"
    by (rule trans)
  have l: "[scale_five] = [] @ scale_five # [] \<and> resolvable survey_one scale_five
      \<and> (\<forall>z \<in> set []. sar_QuestionID z \<noteq> sar_QuestionID scale_five)"
    using r by simp
  from th l have t3: "\<exists>b \<in> set (db_answers (fst (SubmitAnswers db_short 7 1
                ([scale_five] @ skipped_required # two_answers)))).
         b = (answer_of_request 1 scale_five)\<lparr>ans_ID := ans_ID b\<rparr>"
    by blast
  from a e f g r u t1 t2 t3 show ?thesis by blast
qed

text \<open>
  Claim C6 at a started response and the required question 1: \<^verbatim>\<open>UpdateAnswer\<close> stores a
  skipped, empty answer without an error, while \<^verbatim>\<open>SubmitAnswers\<close> rejects the same answer
  as a one-element batch and stores nothing. \<^verbatim>\<open>UpdateAnswer\<close> neither resolves the
  question nor calls \<^verbatim>\<open>ValidateAnswer\<close>.
\<close>

theorem UpdateAnswer_unvalidated:
  "snd (UpdateAnswer db_short 7 1 1 (update_request (text_value '''') True)) = None
   \<and> map ans_IsSkipped
        (db_answers (fst (UpdateAnswer db_short 7 1 1 (update_request (text_value '''') True))))
       = [True]
   \<and> SubmitAnswers db_short 7 1 [submit_request 1 (text_value '''') True]
       = (db_short, Some ''answer is required'')"
  by (simp add: service_defs repo_defs example_defs status_defs)

section \<open>Completing a response\<close>

text \<open>
  Claim C1 at a pool holding 30 with a reward of 50: \<^verbatim>\<open>CompleteSurvey\<close> fails with
  "insufficient reward pool", yet the stored response has become completed with its
  completed-at stamp, no transaction exists, and a retry is refused as "response is not
  active". The response is saved before the pool is checked.
\<close>

theorem CompleteSurvey_insufficient_pool:
  "snd (CompleteSurvey unrep 2000 db_short 7 complete_request) = Inl ''insufficient reward pool''
   \<and> map resp_Status (db_responses db_short) = [ResponseStatusStarted]
   \<and> map resp_Status (db_responses (fst (CompleteSurvey unrep 2000 db_short 7 complete_request)))
       = [ResponseStatusCompleted]
   \<and> map resp_CompletedAt
        (db_responses (fst (CompleteSurvey unrep 2000 db_short 7 complete_request))) = [Some 2000]
   \<and> db_transactions (fst (CompleteSurvey unrep 2000 db_short 7 complete_request)) = []
   \<and> snd (CompleteSurvey unrep 3000
             (fst (CompleteSurvey unrep 2000 db_short 7 complete_request)) 7 complete_request)
       = Inl ''response is not active''"
  by (simp add: service_defs repo_defs example_defs more_example_defs status_defs pool_eval
      f64_eval)

section \<open>Completion certificate\<close>













section \<open>Quality score\<close>

lemma score_range:
  assumes q: "0 < length (sv_Questions survey)" "length (sv_Questions survey) < 2 ^ 53"
    and a: "length (resp_Answers response) < 2 ^ 53"
  shows "\<exists>s. calculateQualityScore response survey = Fin s \<and> 0 \<le> s \<and> s \<le> 5"
proof -
  define na where "na = int (length (resp_Answers response))"
  define nt where "nt = int (length (sv_Questions survey))"
  define k where "k = count_skipped_required (resp_Answers response) (sv_Questions survey)"
  define rate where "rate = f64_div (f64_of_int na) (f64_of_int nt)"
  define s1 where "s1 = f64_mul (Fin 5) rate"
  define s2 where "s2 = (if f64_lt (avgTimePerQuestion response) (Fin 5)
                         then f64_mul s1 (round64 (7 / 10)) else s1)"
  define s3 where "s3 = (if 0 < k
       then f64_mul s2 (f64_sub (Fin 1) (f64_mul (f64_of_int k) (round64 (1 / 10)))) else s2)"
  have eq: "calculateQualityScore response survey =
      (if f64_gt (if f64_lt s3 (Fin 0) then Fin 0 else s3) (Fin 5) then Fin 5
       else (if f64_lt s3 (Fin 0) then Fin 0 else s3))"
    by (simp add: calculateQualityScore_def Let_def s3_def s2_def s1_def rate_def k_def
        na_def nt_def)
  have na: "0 \<le> na" "na < 2 ^ 53" using a by (simp_all add: na_def)
  have nt: "1 \<le> nt" "nt < 2 ^ 53" using q by (simp_all add: nt_def Suc_le_eq)
  have kb: "0 \<le> k" "k \<le> na"
    using count_skipped_required_bounds [of "resp_Answers response" "sv_Questions survey"]
    by (simp_all add: k_def na_def)
  have fa: "f64_of_int na = Fin (of_int na)" using na by (intro f64_of_int_exact) simp
  have ft: "f64_of_int nt = Fin (of_int nt)" using nt by (intro f64_of_int_exact) simp
  have fk: "f64_of_int k = Fin (of_int k)" using kb na by (intro f64_of_int_exact) simp
  have ra: "\<bar>of_int na :: real\<bar> \<le> 2 ^ 53"
    using na by (metis abs_of_nonneg less_imp_le of_int_0_le_iff of_int_le_numeral_power_cancel_iff)
  have rk: "\<bar>of_int k :: real\<bar> \<le> 2 ^ 53"
    using kb na
    by (metis abs_of_nonneg less_imp_le of_int_0_le_iff of_int_le_numeral_power_cancel_iff
        order_trans)
  have rt: "(1::real) \<le> of_int nt" using nt by simp
  have m_rate: "mag 54 rate"
    unfolding rate_def fa ft using div_mag [OF ra rt] by simp
  have m5: "mag 3 (Fin 5)" by (simp add: mag_def)
  have m_s1: "mag 58 s1"
    unfolding s1_def using mul_mag [OF m5 m_rate] by simp
  have m07: "mag 1 (round64 (7 / 10))" using round64_mag [of "7 / 10" 0] by simp
  have m01: "mag 1 (round64 (1 / 10))" using round64_mag [of "1 / 10" 0] by simp
  have m_s2: "mag 60 s2"
  proof (cases "f64_lt (avgTimePerQuestion response) (Fin 5)")
    case True
    then show ?thesis unfolding s2_def using mul_mag [OF m_s1 m07] by simp
  next
    case False
    then show ?thesis unfolding s2_def using mag_mono [OF m_s1, of 60] by simp
  qed
  have m_k: "mag 53 (f64_of_int k)" unfolding fk using rk by (rule mag_Fin)
  have m_kc: "mag 55 (f64_mul (f64_of_int k) (round64 (1 / 10)))"
    using mul_mag [OF m_k m01] by simp
  have m1: "mag 55 (Fin 1)" by (simp add: mag_def)
  have m_f: "mag 57 (f64_sub (Fin 1) (f64_mul (f64_of_int k) (round64 (1 / 10))))"
    using sub_mag [OF m1 m_kc] by simp
  have m_s3: "mag 118 s3"
  proof (cases "0 < k")
    case True
    then show ?thesis unfolding s3_def using mul_mag [OF m_s2 m_f] by simp
  next
    case False
    then show ?thesis unfolding s3_def using mag_mono [OF m_s2, of 118] by simp
  qed
  then obtain r where r: "s3 = Fin r" by (auto simp: mag_def)
  show ?thesis
    unfolding eq r by (simp add: f64_gt_def)
qed

lemma score_no_answers:
  assumes q: "0 < length (sv_Questions survey)" "length (sv_Questions survey) < 2 ^ 53"
    and e: "resp_Answers response = []" and d: "0 \<le> resp_Duration response"
  shows "\<not> f64_lt (avgTimePerQuestion response) (Fin 5)
    \<and> calculateQualityScore response survey = Fin 0"
proof -
  define nt where "nt = int (length (sv_Questions survey))"
  have nt: "1 \<le> nt" "nt < 2 ^ 53" using q by (simp_all add: nt_def Suc_le_eq)
  have ft: "f64_of_int nt = Fin (of_int nt)" using nt by (intro f64_of_int_exact) simp
  have f0: "f64_of_int 0 = Fin 0" using f64_of_int_exact [of 0] by simp
  have nz: "(of_int nt :: real) \<noteq> 0" using nt by simp
  have nolt: "\<not> f64_lt (avgTimePerQuestion response) (Fin 5)"
  proof (cases "f64_of_int (resp_Duration response)")
    case (Fin r)
    have "0 \<le> r"
    proof -
      from Fin have "round64 (of_int (resp_Duration response)) = Fin r"
        by (simp add: f64_of_int_def)
      then have "r = rne64 (of_int (resp_Duration response))"
        by (auto simp: round64_def split: if_splits)
      with d show ?thesis using rne64_nonneg [of "of_int (resp_Duration response)"] by simp
    qed
    then show ?thesis by (simp add: avgTimePerQuestion_def e f0 Fin)
  next
    case PInf
    then show ?thesis by (simp add: avgTimePerQuestion_def e f0)
  next
    case NInf
    with d show ?thesis by (auto simp: f64_of_int_def round64_def split: if_splits)
  next
    case NaN
    then show ?thesis by (simp add: avgTimePerQuestion_def e f0)
  qed
  moreover have "calculateQualityScore response survey = Fin 0"
    using nolt nz
    by (simp add: calculateQualityScore_def Let_def e f0 ft round64_zero f64_gt_def
        flip: nt_def)
  ultimately show ?thesis by blast
qed


text \<open>
  Claim C5, as stated, fails for a survey without questions: with no answers either, the
  completion rate is 0/0, the score is NaN, and NaN is neither at least 0 nor at most 5.
\<close>

theorem calculateQualityScore_counterexample:
  "calculateQualityScore response_one survey_empty = NaN
   \<and> \<not> f64_ge (calculateQualityScore response_one survey_empty) (Fin 0)
   \<and> \<not> f64_le (calculateQualityScore response_one survey_empty) (Fin 5)"
proof -
  have f0: "f64_of_int 0 = Fin 0" using f64_of_int_exact [of 0] by simp
  have "calculateQualityScore response_one survey_empty = NaN"
    by (simp add: calculateQualityScore_def avgTimePerQuestion_def Let_def survey_empty_def
        response_one_def f0 f64_gt_def)
  then show ?thesis by (simp add: f64_ge_def f64_le_def)
qed

text \<open>
  Claim C5, amended. For a survey with at least one question the quality score is a number
  in [0, 5], whatever the answers, the duration and the skips (list lengths below \<open>2^53\<close>);
  and when nothing is answered and the duration is not negative, the pacing test
  \<^verbatim>\<open>avgTimePerQuestion < 5\<close> is false, so the penalty is not applied, and the score is 0.
\<close>

theorem calculateQualityScore_range:
  assumes "0 < length (sv_Questions survey)"
    and "length (sv_Questions survey) < 2 ^ 53"
    and "length (resp_Answers response) < 2 ^ 53"
  shows "(\<exists>s. calculateQualityScore response survey = Fin s \<and> 0 \<le> s \<and> s \<le> 5)
    \<and> (resp_Answers response = [] \<and> 0 \<le> resp_Duration response \<longrightarrow>
         \<not> f64_lt (avgTimePerQuestion response) (Fin 5)
         \<and> calculateQualityScore response survey = Fin 0)"
  using score_range [OF assms] score_no_answers [OF assms(1) assms(2)] by blast

theorem calculateQualityScore_range_witness:
  "0 < length (sv_Questions survey_one)
   \<and> length (sv_Questions survey_one) < 2 ^ 53
   \<and> length (resp_Answers response_one) < 2 ^ 53
   \<and> resp_Answers response_one = [] \<and> 0 \<le> resp_Duration response_one
   \<and> \<not> f64_lt (avgTimePerQuestion response_one) (Fin 5)
   \<and> calculateQualityScore response_one survey_one = Fin 0"
proof -
  have a: "0 < length (sv_Questions survey_one)" by (simp add: survey_one_def)
  have b: "length (sv_Questions survey_one) < 2 ^ 53" by (simp add: survey_one_def)
  have c: "length (resp_Answers response_one) < 2 ^ 53" by (simp add: response_one_def)
  have d: "resp_Answers response_one = [] \<and> 0 \<le> resp_Duration response_one"
    by (simp add: response_one_def)
  from calculateQualityScore_range [OF a b c] a b c d show ?thesis by blast
qed

section \<open>Reward settlement\<close>

lemma ProcessReward_pool_ID: "pool_ID (fst (ProcessReward rp)) = pool_ID rp"
  by (simp add: ProcessReward_def Let_def)

lemma processRewards_result:
  assumes pool: "rewardRepo_GetPoolBySurveyID db (sv_ID survey) = Inr pool"
    and can: "CanProcessReward pool"
  shows "processRewards unrep db response survey =
      (db\<lparr>db_pools := map (\<lambda>p. if pool_ID p = pool_ID pool then fst (ProcessReward pool) else p)
                        (db_pools db),
          db_transactions := db_transactions db @
            [\<lparr>tx_ID = Suc (fold max (map tx_ID (db_transactions db)) 0),
              tx_UserID = resp_UserID response, tx_SurveyID = sv_ID survey,
              tx_ResponseID = Some (resp_ID response), tx_PoolID = Some (pool_ID pool),
              tx_Type = TransactionTypeReward,
              tx_Amount = f64_mul (sv_RewardPerResponse survey)
                            (f64_div (resp_QualityScore response) (Fin 5)),
              tx_Status = TransactionStatusPending\<rparr>],
          db_users := map (\<lambda>u. if user_ID u = resp_UserID response
                then u\<lparr>user_TotalEarned := f64_add (user_TotalEarned u)
                       (f64_mul (sv_RewardPerResponse survey)
                          (f64_div (resp_QualityScore response) (Fin 5)))\<rparr>
                else u) (db_users db)\<rparr>,
       Inr (f64_mul (sv_RewardPerResponse survey) (f64_div (resp_QualityScore response) (Fin 5)),
            go_int unrep
              (f64_mul (f64_mul (f64_of_int (sv_EstimatedDuration survey)) (Fin 10))
                 (f64_div (resp_QualityScore response) (Fin 5)))))"
proof -
  obtain pool' where pp: "ProcessReward pool = (pool', None)"
    using can by (simp add: ProcessReward_def Let_def)
  then have f: "fst (ProcessReward pool) = pool'" by simp
  have id: "pool_ID pool' = pool_ID pool"
    using f by (metis ProcessReward_pool_ID)
  show ?thesis
    unfolding processRewards_def rewardRepo_ProcessReward_def f
    using pool can by (simp add: Let_def id pp userRepo_UpdateBalance_def)
qed

text \<open>
  Claim C3, as stated, fails in its last part: no XP is credited. For the same response and
  pool, a survey of 10 minutes returns 100 XP and a survey of 20 minutes returns 200 XP, and
  the database after the settlement is the same in both cases; the user row has gained the
  amount 50 in total earned and nothing else.
\<close>

theorem processRewards_xp_counterexample:
  "snd (processRewards no_conversion db_funded completed_one survey_one) = Inr (Fin 50, 100)
   \<and> snd (processRewards no_conversion db_funded completed_one survey_twenty)
       = Inr (Fin 50, 200)
   \<and> fst (processRewards no_conversion db_funded completed_one survey_one)
       = fst (processRewards no_conversion db_funded completed_one survey_twenty)
   \<and> db_users (fst (processRewards no_conversion db_funded completed_one survey_one))
       = [user_seven\<lparr>user_TotalEarned := Fin 50\<rparr>]"
proof -
  have a: "rewardRepo_GetPoolBySurveyID db_funded (sv_ID survey_one) = Inr pool_hundred"
    by (simp add: repo_defs example_defs)
  have a': "rewardRepo_GetPoolBySurveyID db_funded (sv_ID survey_twenty) = Inr pool_hundred"
    by (simp add: repo_defs example_defs survey_twenty_def)
  have b: "CanProcessReward pool_hundred"
    by (simp add: pool_eval pool_hundred_def f64_eval)
  have v: "sv_RewardPerResponse survey_one = Fin 50 \<and> sv_EstimatedDuration survey_one = 10
     \<and> sv_RewardPerResponse survey_twenty = Fin 50 \<and> sv_EstimatedDuration survey_twenty = 20
     \<and> sv_ID survey_twenty = sv_ID survey_one
     \<and> resp_QualityScore completed_one = Fin 5 \<and> resp_UserID completed_one = 7
     \<and> db_users db_funded = [user_seven] \<and> user_ID user_seven = 7
     \<and> user_TotalEarned user_seven = Fin 0"
    by (simp add: survey_one_def survey_twenty_def completed_one_def response_one_def
        db_funded_def user_seven_def)
  show ?thesis
    unfolding processRewards_result [OF a b] processRewards_result [OF a' b]
    by (simp add: v f64_eval go_int_def)
qed

text \<open>
  Claim C3, amended. When the pool of the survey can pay, \<^verbatim>\<open>processRewards\<close> stores the
  pool debited by the nominal amount (one more response, paid out plus and remaining minus
  the pool's reward per response), records a pending transaction for the amount
  reward per response of the survey times quality score / 5, and credits the same amount to
  the user's total earned; nothing else is stored. It returns that amount and the XP
  \<^verbatim>\<open>int(float64(duration) * 10 * (q / 5))\<close>, which is the floor of that float64 product for
  a quality score in [0, 5] and a duration in \<open>[0, 2^53)\<close> minutes; the XP is returned to the
  caller only.
\<close>

theorem processRewards_settlement:
  fixes survey :: Survey and response :: Response and amount xpf :: f64
  defines "amount \<equiv> f64_mul (sv_RewardPerResponse survey)
                        (f64_div (resp_QualityScore response) (Fin 5))"
    and "xpf \<equiv> f64_mul (f64_mul (f64_of_int (sv_EstimatedDuration survey)) (Fin 10))
                     (f64_div (resp_QualityScore response) (Fin 5))"
  assumes pool: "rewardRepo_GetPoolBySurveyID db (sv_ID survey) = Inr pool"
    and can: "CanProcessReward pool"
  shows "processRewards unrep db response survey =
      (db\<lparr>db_pools := map (\<lambda>p. if pool_ID p = pool_ID pool then fst (ProcessReward pool) else p)
                        (db_pools db),
          db_transactions := db_transactions db @
            [\<lparr>tx_ID = Suc (fold max (map tx_ID (db_transactions db)) 0),
              tx_UserID = resp_UserID response, tx_SurveyID = sv_ID survey,
              tx_ResponseID = Some (resp_ID response), tx_PoolID = Some (pool_ID pool),
              tx_Type = TransactionTypeReward, tx_Amount = amount,
              tx_Status = TransactionStatusPending\<rparr>],
          db_users := map (\<lambda>u. if user_ID u = resp_UserID response
                then u\<lparr>user_TotalEarned := f64_add (user_TotalEarned u) amount\<rparr> else u)
              (db_users db)\<rparr>,
       Inr (amount, go_int unrep xpf))
    \<and> pool_CurrentResponses (fst (ProcessReward pool)) = pool_CurrentResponses pool + 1
    \<and> pool_PaidOut (fst (ProcessReward pool))
        = f64_add (pool_PaidOut pool) (pool_RewardPerResponse pool)
    \<and> pool_RemainingAmount (fst (ProcessReward pool))
        = f64_sub (pool_RemainingAmount pool) (pool_RewardPerResponse pool)
    \<and> (\<forall>q. resp_QualityScore response = Fin q \<and> 0 \<le> q \<and> q \<le> 5
            \<and> 0 \<le> sv_EstimatedDuration survey \<and> sv_EstimatedDuration survey < 2 ^ 53
          \<longrightarrow> (\<exists>v. xpf = Fin v \<and> go_int unrep xpf = \<lfloor>v\<rfloor>))"
proof -
  have deb: "pool_CurrentResponses (fst (ProcessReward pool)) = pool_CurrentResponses pool + 1
    \<and> pool_PaidOut (fst (ProcessReward pool))
        = f64_add (pool_PaidOut pool) (pool_RewardPerResponse pool)
    \<and> pool_RemainingAmount (fst (ProcessReward pool))
        = f64_sub (pool_RemainingAmount pool) (pool_RewardPerResponse pool)"
    using can by (simp add: ProcessReward_def Let_def)
  have xp: "\<forall>q. resp_QualityScore response = Fin q \<and> 0 \<le> q \<and> q \<le> 5
            \<and> 0 \<le> sv_EstimatedDuration survey \<and> sv_EstimatedDuration survey < 2 ^ 53
          \<longrightarrow> (\<exists>v. xpf = Fin v \<and> go_int unrep xpf = \<lfloor>v\<rfloor>)"
    unfolding xpf_def using xp_floor by auto
  from processRewards_result [OF pool can, of unrep response] deb xp show ?thesis
    unfolding amount_def xpf_def by blast
qed

theorem processRewards_settlement_witness:
  "rewardRepo_GetPoolBySurveyID db_funded (sv_ID survey_one) = Inr pool_hundred
   \<and> CanProcessReward pool_hundred
   \<and> resp_QualityScore completed_one = Fin 5 \<and> sv_EstimatedDuration survey_one = 10
   \<and> snd (processRewards no_conversion db_funded completed_one survey_one)
       = Inr (Fin 50, 100)
   \<and> map user_TotalEarned
        (db_users (fst (processRewards no_conversion db_funded completed_one survey_one)))
       = [Fin 50]
   \<and> map tx_Amount
        (db_transactions (fst (processRewards no_conversion db_funded completed_one survey_one)))
       = [Fin 50]
   \<and> pool_PaidOut (fst (ProcessReward pool_hundred)) = Fin 50
   \<and> pool_RemainingAmount (fst (ProcessReward pool_hundred)) = Fin 50
   \<and> pool_CurrentResponses (fst (ProcessReward pool_hundred)) = 1
   \<and> (\<exists>v. f64_mul (f64_mul (f64_of_int (sv_EstimatedDuration survey_one)) (Fin 10))
              (f64_div (resp_QualityScore completed_one) (Fin 5)) = Fin v
          \<and> \<lfloor>v\<rfloor> = 100)"
proof -
  have a: "rewardRepo_GetPoolBySurveyID db_funded (sv_ID survey_one) = Inr pool_hundred"
    by (simp add: repo_defs example_defs)
  have b: "CanProcessReward pool_hundred"
    by (simp add: pool_eval pool_hundred_def f64_eval)
  have c: "f64_mul (sv_RewardPerResponse survey_one)
             (f64_div (resp_QualityScore completed_one) (Fin 5)) = Fin 50"
    by (simp add: completed_one_def survey_one_def f64_eval)
  have d: "go_int no_conversion
      (f64_mul (f64_mul (f64_of_int (sv_EstimatedDuration survey_one)) (Fin 10))
         (f64_div (resp_QualityScore completed_one) (Fin 5))) = 100"
    by (simp add: completed_one_def survey_one_def f64_eval go_int_def)
  have e: "pool_PaidOut pool_hundred = Fin 0 \<and> pool_RewardPerResponse pool_hundred = Fin 50
     \<and> pool_RemainingAmount pool_hundred = Fin 100 \<and> pool_CurrentResponses pool_hundred = 0"
    by (simp add: pool_hundred_def)
  have g: "resp_UserID completed_one = 7 \<and> db_users db_funded = [user_seven]
     \<and> user_ID user_seven = 7 \<and> user_TotalEarned user_seven = Fin 0
     \<and> db_transactions db_funded = []"
    by (simp add: completed_one_def response_one_def db_funded_def user_seven_def)
  have q: "resp_QualityScore completed_one = Fin 5 \<and> (0::real) \<le> 5 \<and> (5::real) \<le> 5
     \<and> 0 \<le> sv_EstimatedDuration survey_one \<and> sv_EstimatedDuration survey_one < 2 ^ 53
     \<and> sv_EstimatedDuration survey_one = 10"
    by (simp add: completed_one_def survey_one_def)
  have h: "round64 50 = Fin 50" by (simp add: f64_eval)
  note th = processRewards_settlement [OF a b, of no_conversion completed_one]
  from th have t0: "processRewards no_conversion db_funded completed_one survey_one =
      (db_funded\<lparr>db_pools := map (\<lambda>p. if pool_ID p = pool_ID pool_hundred
                                   then fst (ProcessReward pool_hundred) else p)
                        (db_pools db_funded),
          db_transactions := db_transactions db_funded @
            [\<lparr>tx_ID = Suc (fold max (map tx_ID (db_transactions db_funded)) 0),
              tx_UserID = resp_UserID completed_one, tx_SurveyID = sv_ID survey_one,
              tx_ResponseID = Some (resp_ID completed_one),
              tx_PoolID = Some (pool_ID pool_hundred),
              tx_Type = TransactionTypeReward, tx_Amount = Fin 50,
              tx_Status = TransactionStatusPending\<rparr>],
          db_users := map (\<lambda>u. if user_ID u = resp_UserID completed_one
                then u\<lparr>user_TotalEarned := f64_add (user_TotalEarned u) (Fin 50)\<rparr> else u)
              (db_users db_funded)\<rparr>,
       Inr (Fin 50, 100))"
    unfolding c d by blast
  from th have t3: "pool_CurrentResponses (fst (ProcessReward pool_hundred))
        = pool_CurrentResponses pool_hundred + 1
    \<and> pool_PaidOut (fst (ProcessReward pool_hundred))
        = f64_add (pool_PaidOut pool_hundred) (pool_RewardPerResponse pool_hundred)
    \<and> pool_RemainingAmount (fst (ProcessReward pool_hundred))
        = f64_sub (pool_RemainingAmount pool_hundred) (pool_RewardPerResponse pool_hundred)"
    by blast
  from th q have t4: "\<exists>v. f64_mul (f64_mul (f64_of_int (sv_EstimatedDuration survey_one)) (Fin 10))
              (f64_div (resp_QualityScore completed_one) (Fin 5)) = Fin v
          \<and> go_int no_conversion
               (f64_mul (f64_mul (f64_of_int (sv_EstimatedDuration survey_one)) (Fin 10))
                  (f64_div (resp_QualityScore completed_one) (Fin 5))) = \<lfloor>v\<rfloor>"
    by blast
  have x: "\<exists>v. f64_mul (f64_mul (f64_of_int (sv_EstimatedDuration survey_one)) (Fin 10))
              (f64_div (resp_QualityScore completed_one) (Fin 5)) = Fin v
          \<and> \<lfloor>v\<rfloor> = 100"
    using t4 unfolding d by metis
  have r: "snd (processRewards no_conversion db_funded completed_one survey_one)
       = Inr (Fin 50, 100)"
    unfolding t0 by simp
  have u: "map user_TotalEarned
        (db_users (fst (processRewards no_conversion db_funded completed_one survey_one)))
       = [Fin 50]"
    unfolding t0 by (simp add: g h)
  have t: "map tx_Amount
        (db_transactions (fst (processRewards no_conversion db_funded completed_one survey_one)))
       = [Fin 50]"
    unfolding t0 by (simp add: g)
  have p: "pool_PaidOut (fst (ProcessReward pool_hundred)) = Fin 50
   \<and> pool_RemainingAmount (fst (ProcessReward pool_hundred)) = Fin 50
   \<and> pool_CurrentResponses (fst (ProcessReward pool_hundred)) = 1"
    using t3 by (simp add: e h f64_sub_def)
  from a b q r u t p x show ?thesis by blast
qed

end
